theory Spec2Isabelle
  imports Complex_Main "HOL-Library.List_Lexorder" "HOL-Library.Char_ord"
    "HOL-Library.Multiset" "HOL-Library.Log_Nat"
begin

section \<open>Hospital inventory: models, repository and store\<close>

text \<open>
  A shallow embedding of the TypeScript sources \<^verbatim>\<open>models/base/Model.ts\<close>,
  \<^verbatim>\<open>models/Asset.ts\<close>, \<^verbatim>\<open>models/HospitalAsset.ts\<close>,
  \<^verbatim>\<open>models/HospitalConfig.ts\<close>, \<^verbatim>\<open>repositories/base/Repository.ts\<close>,
  \<^verbatim>\<open>repositories/AssetRepository.ts\<close> and \<^verbatim>\<open>stores/assets.ts\<close>.

  Conventions of the embedding.
  \<^item> A JavaScript \<^verbatim>\<open>number\<close> that a field or a custom field holds is a
    \<^typ>\<open>rat\<close>: a finite value; a stored \<^verbatim>\<open>NaN\<close> or infinity is outside the model,
    and \<open>-0\<close> is not told from \<open>0\<close>. The product \<^verbatim>\<open>reorderPoint * 0.3\<close> of the
    stock predicates is the exact one. (For a whole number \<open>n\<close> below \<open>2^31\<close> the
    double product \<^verbatim>\<open>n * 0.3\<close> compares with a whole number exactly as
    \<open>n * 3 / 10\<close> does.) The products and sums of \<^verbatim>\<open>totalValue\<close> are those of
    IEEE doubles: each result is rounded to the nearest double, and may be an infinity
    or \<^verbatim>\<open>NaN\<close>.
  \<^item> A JavaScript string is a \<^typ>\<open>string\<close>; each \<^typ>\<open>char\<close> is one UTF-16 code unit
    in the range \<open>0..255\<close>, so \<^const>\<open>length\<close> is \<^verbatim>\<open>.length\<close> and the order on
    strings is the code-unit order of \<^verbatim>\<open><\<close> and \<^verbatim>\<open>>\<close>.
  \<^item> A \<^verbatim>\<open>Date\<close> is the \<^typ>\<open>int\<close> of its time value (milliseconds since the epoch);
    invalid dates are outside the model.
  \<^item> A \<^verbatim>\<open>Map\<close> is an association list with distinct keys in insertion order.
  \<^item> Objects and arrays that the code shares and mutates live in an explicit heap;
    a reference is an index into it.
  \<^item> A thrown exception is a value of \<open>js_error\<close>.
\<close>

subsection \<open>Values of the runtime\<close>

datatype js_error = JsError string | JsTypeError string

text \<open>
  A date-typed field holds a \<^verbatim>\<open>Date\<close> object, or, in a record produced by
  \<^verbatim>\<open>serialize()\<close>, the ISO-8601 text of an instant. The text is kept symbolic:
  \<open>IsoText t\<close> is the string \<^verbatim>\<open>new Date(t).toISOString()\<close>, and parsing it gives
  \<open>t\<close> back.
\<close>

datatype date_value = DateObj int | IsoText int

fun instant :: "date_value \<Rightarrow> int" where
  "instant (DateObj t) = t"
| "instant (IsoText t) = t"

text \<open>\<^verbatim>\<open>d?.toISOString()\<close> on an optional date field.\<close>

fun toISOString_opt :: "date_value option \<Rightarrow> js_error + date_value option" where
  "toISOString_opt None = Inr None"
| "toISOString_opt (Some (DateObj t)) = Inr (Some (IsoText t))"
| "toISOString_opt (Some (IsoText t)) = Inl (JsTypeError ''toISOString is not a function'')"

text \<open>
  A value of type \<^verbatim>\<open>any\<close>, as far as the code inspects it. \<open>JNum\<close> is a finite
  number. \<open>JDate\<close> is a \<^verbatim>\<open>Date\<close> object, or the ISO text of one, which is a string.
  \<open>JObject\<close> is a function, or an object that takes its conversions to a primitive
  from \<^verbatim>\<open>Object.prototype\<close>; arrays and objects with conversions of their own are
  not among these values.
\<close>

datatype jsval =
    JUndefined
  | JNull
  | JBool bool
  | JNum rat
  | JStr string
  | JDate date_value
  | JObject

fun truthy :: "jsval \<Rightarrow> bool" where
  "truthy JUndefined = False"
| "truthy JNull = False"
| "truthy (JBool b) = b"
| "truthy (JNum n) = (n \<noteq> 0)"
| "truthy (JStr s) = (s \<noteq> [])"
| "truthy (JDate d) = True"
| "truthy JObject = True"

subsection \<open>Strings\<close>

definition code_unit :: "char \<Rightarrow> nat" where
  "code_unit c = of_char c"

definition is_upper :: "char \<Rightarrow> bool" where
  "is_upper c = (65 \<le> code_unit c \<and> code_unit c \<le> 90)"

definition is_digit :: "char \<Rightarrow> bool" where
  "is_digit c = (48 \<le> code_unit c \<and> code_unit c \<le> 57)"

text \<open>
  White space and line terminators that \<^verbatim>\<open>String.prototype.trim\<close> strips, among
  the code units \<open>0..255\<close>: TAB, LF, VT, FF, CR, SP and NBSP.
\<close>

definition is_space :: "char \<Rightarrow> bool" where
  "is_space c = (code_unit c \<in> {9, 10, 11, 12, 13, 32, 160})"

definition trim :: "string \<Rightarrow> string" where
  "trim s = rev (dropWhile is_space (rev (dropWhile is_space s)))"

text \<open>
  \<^verbatim>\<open>String.prototype.toLowerCase\<close> on the code units \<open>0..255\<close>: \<open>A..Z\<close> and the
  Latin-1 capitals \<open>U+00C0..U+00DE\<close> (without the multiplication sign \<open>U+00D7\<close>)
  move up by 32.
\<close>

definition toLowerCase_char :: "char \<Rightarrow> char" where
  "toLowerCase_char c =
     (let n = code_unit c
      in if (65 \<le> n \<and> n \<le> 90) \<or> (192 \<le> n \<and> n \<le> 222 \<and> n \<noteq> 215)
         then char_of (n + 32) else c)"

definition toLowerCase :: "string \<Rightarrow> string" where
  "toLowerCase s = map toLowerCase_char s"

fun is_prefix :: "string \<Rightarrow> string \<Rightarrow> bool" where
  "is_prefix [] s = True"
| "is_prefix (q # qs) [] = False"
| "is_prefix (q # qs) (c # cs) = (q = c \<and> is_prefix qs cs)"

text \<open>\<^verbatim>\<open>s.includes(q)\<close>: \<open>q\<close> occurs in \<open>s\<close> as a contiguous substring.\<close>

fun str_includes :: "string \<Rightarrow> string \<Rightarrow> bool" where
  "str_includes [] q = (q = [])"
| "str_includes (c # cs) q = (is_prefix q (c # cs) \<or> str_includes cs q)"

text \<open>\<^verbatim>\<open>xs.join(sep)\<close> on an array of strings.\<close>

fun join :: "string \<Rightarrow> string list \<Rightarrow> string" where
  "join sep [] = []"
| "join sep [x] = x"
| "join sep (x # y # ys) = x @ sep @ join sep (y # ys)"

text \<open>
  \<^verbatim>\<open>s.match(/^[A-Z]{2}-\d{6}$/)\<close> is not null: without the \<^verbatim>\<open>m\<close> flag the anchors
  are the two ends of the string, so the whole string is two capitals, a hyphen and six
  digits.
\<close>

definition matches_serial :: "string \<Rightarrow> bool" where
  "matches_serial s =
     (length s = 9 \<and> list_all is_upper (take 2 s) \<and> s ! 2 = CHR ''-''
      \<and> list_all is_digit (drop 3 s))"

subsection \<open>Maps and plain objects\<close>

text \<open>\<^verbatim>\<open>Map.prototype.set\<close>: an existing key keeps its place, a new key goes last.\<close>

fun map_set :: "'k \<Rightarrow> 'v \<Rightarrow> ('k \<times> 'v) list \<Rightarrow> ('k \<times> 'v) list" where
  "map_set k v [] = [(k, v)]"
| "map_set k v ((k', v') # m) = (if k' = k then (k, v) # m else (k', v') # map_set k v m)"

text \<open>
  The own keys of a plain object are enumerated with the array indices first, in
  ascending numeric order, then the other strings in creation order. An array index is
  the canonical decimal text of a whole number below \<open>2^32 - 1\<close>.
\<close>

fun decimal_value :: "nat \<Rightarrow> string \<Rightarrow> nat" where
  "decimal_value acc [] = acc"
| "decimal_value acc (c # cs) = decimal_value (10 * acc + (code_unit c - 48)) cs"

definition is_array_index :: "string \<Rightarrow> bool" where
  "is_array_index k =
     (k \<noteq> [] \<and> list_all is_digit k \<and> (k = ''0'' \<or> hd k \<noteq> CHR ''0'')
      \<and> decimal_value 0 k < 4294967295)"

text \<open>
  \<^verbatim>\<open>Object.entries(Object.fromEntries(m))\<close> for a \<^verbatim>\<open>Map\<close> \<open>m\<close>; also
  \<^verbatim>\<open>Object.values\<close> of that object, taking the second components.
\<close>

definition fromEntries :: "(string \<times> 'v) list \<Rightarrow> (string \<times> 'v) list" where
  "fromEntries m =
     sort_key (\<lambda>kv. decimal_value 0 (fst kv)) (filter (\<lambda>kv. is_array_index (fst kv)) m)
     @ filter (\<lambda>kv. \<not> is_array_index (fst kv)) m"

text \<open>
  The names that every plain object inherits from \<^verbatim>\<open>Object.prototype\<close>: the
  \<^verbatim>\<open>in\<close> operator finds them, and their value is a function or an object.
\<close>

definition inherited_keys :: "string list" where
  "inherited_keys =
     [''constructor'', ''hasOwnProperty'', ''isPrototypeOf'', ''propertyIsEnumerable'',
      ''toLocaleString'', ''toString'', ''valueOf'', ''__proto__'', ''__defineGetter__'',
      ''__defineSetter__'', ''__lookupGetter__'', ''__lookupSetter__'']"

subsection \<open>Numbers\<close>

text \<open>
  The result of an arithmetic operation of the runtime: a finite double, an infinity or
  \<^verbatim>\<open>NaN\<close>.
\<close>

datatype js_number = Num rat | PosInfinity | NegInfinity | NaN

definition pow2 :: "int \<Rightarrow> rat" where
  "pow2 k = (if 0 \<le> k then 2 ^ nat k else 1 / 2 ^ nat (- k))"

text \<open>For \<open>x > 0\<close>, the \<open>e\<close> with \<open>2^e \<le> x < 2^(e+1)\<close>.\<close>

definition exponent :: "rat \<Rightarrow> int" where
  "exponent x = (if 1 \<le> x then bitlen \<lfloor>x\<rfloor> - 1 else - bitlen (\<lceil>1 / x\<rceil> - 1))"

text \<open>The nearest whole number, the even one of two that are equally near.\<close>

definition round_half_even :: "rat \<Rightarrow> int" where
  "round_half_even y =
     (let f = \<lfloor>y\<rfloor>; d = y - of_int f
      in if d < 1 / 2 then f else if 1 / 2 < d then f + 1 else if even f then f else f + 1)"

text \<open>
  The IEEE 754 binary64 value of an exact result, rounding to nearest, ties to even. The
  doubles around \<open>x\<close> are the multiples of \<open>2^(e - 52)\<close>, where \<open>e\<close> is the exponent
  of \<open>x\<close>, and not less than \<open>-1022\<close> (below that the doubles are subnormal). A
  rounded value of \<open>2^1024\<close> or more is an infinity. The doubles are the rationals
  that the function leaves as they are; the numbers that the program holds are among
  them.
\<close>

definition round_double :: "rat \<Rightarrow> js_number" where
  "round_double x =
     (if x = 0 then Num 0
      else
        (let q = pow2 (max (exponent \<bar>x\<bar>) (- 1022) - 52);
             r = of_int (round_half_even (x / q)) * q
         in if r \<noteq> 0 \<and> 1024 \<le> exponent \<bar>r\<bar>
            then (if 0 < x then PosInfinity else NegInfinity)
            else Num r))"

text \<open>The operators \<^verbatim>\<open>*\<close> and \<^verbatim>\<open>+\<close> on two numbers.\<close>

fun js_times :: "js_number \<Rightarrow> js_number \<Rightarrow> js_number" where
  "js_times (Num a) (Num b) = round_double (a * b)"
| "js_times NaN y = NaN"
| "js_times x NaN = NaN"
| "js_times (Num a) PosInfinity = (if a = 0 then NaN else if 0 < a then PosInfinity else NegInfinity)"
| "js_times (Num a) NegInfinity = (if a = 0 then NaN else if 0 < a then NegInfinity else PosInfinity)"
| "js_times PosInfinity (Num b) = (if b = 0 then NaN else if 0 < b then PosInfinity else NegInfinity)"
| "js_times NegInfinity (Num b) = (if b = 0 then NaN else if 0 < b then NegInfinity else PosInfinity)"
| "js_times PosInfinity PosInfinity = PosInfinity"
| "js_times PosInfinity NegInfinity = NegInfinity"
| "js_times NegInfinity PosInfinity = NegInfinity"
| "js_times NegInfinity NegInfinity = PosInfinity"

fun js_plus :: "js_number \<Rightarrow> js_number \<Rightarrow> js_number" where
  "js_plus (Num a) (Num b) = round_double (a + b)"
| "js_plus NaN y = NaN"
| "js_plus x NaN = NaN"
| "js_plus PosInfinity NegInfinity = NaN"
| "js_plus NegInfinity PosInfinity = NaN"
| "js_plus PosInfinity y = PosInfinity"
| "js_plus NegInfinity y = NegInfinity"
| "js_plus (Num a) PosInfinity = PosInfinity"
| "js_plus (Num a) NegInfinity = NegInfinity"

text \<open>
  The conversion of a string to a number (\<^verbatim>\<open>StringToNumber\<close> of ECMAScript). White
  space at both ends is dropped; the empty string is 0; \<^verbatim>\<open>0x\<close>, \<^verbatim>\<open>0o\<close> and
  \<^verbatim>\<open>0b\<close> (in either case) start an unsigned literal in base 16, 8 or 2; otherwise
  the string is, after an optional sign, \<^verbatim>\<open>Infinity\<close> or a decimal literal: digits
  with an optional point, at least one digit before or after it, and an optional
  exponent. Anything else is \<^verbatim>\<open>NaN\<close>. The value is rounded to the nearest double
  (past the twentieth significant digit of a decimal literal the standard leaves the
  rounding to the implementation; the engines round the exact value).
\<close>

definition pow10 :: "int \<Rightarrow> rat" where
  "pow10 k = (if 0 \<le> k then 10 ^ nat k else 1 / 10 ^ nat (- k))"

text \<open>The value of a digit in a base up to 16, and 16 for any other character.\<close>

definition radix_digit :: "char \<Rightarrow> nat" where
  "radix_digit c =
     (let n = code_unit c
      in if 48 \<le> n \<and> n \<le> 57 then n - 48
         else if 97 \<le> n \<and> n \<le> 102 then n - 87
         else if 65 \<le> n \<and> n \<le> 70 then n - 55
         else 16)"

fun radix_value :: "nat \<Rightarrow> nat \<Rightarrow> string \<Rightarrow> nat" where
  "radix_value b acc [] = acc"
| "radix_value b acc (c # cs) = radix_value b (b * acc + radix_digit c) cs"

definition radix_literal :: "nat \<Rightarrow> string \<Rightarrow> js_number" where
  "radix_literal b ds =
     (if ds \<noteq> [] \<and> list_all (\<lambda>c. radix_digit c < b) ds
      then round_double (of_nat (radix_value b 0 ds))
      else NaN)"

text \<open>The exponent after \<^verbatim>\<open>e\<close> or \<^verbatim>\<open>E\<close>: digits, with an optional sign.\<close>

definition parse_exponent :: "string \<Rightarrow> int option" where
  "parse_exponent s =
     (case s of
        [] \<Rightarrow> None
      | c # t \<Rightarrow>
          if c = CHR ''+'' then
            (if t \<noteq> [] \<and> list_all is_digit t then Some (int (radix_value 10 0 t)) else None)
          else if c = CHR ''-'' then
            (if t \<noteq> [] \<and> list_all is_digit t then Some (- int (radix_value 10 0 t)) else None)
          else if list_all is_digit s then Some (int (radix_value 10 0 s))
          else None)"

text \<open>An unsigned decimal literal other than \<^verbatim>\<open>Infinity\<close>, and its exact value.\<close>

definition parse_decimal :: "string \<Rightarrow> rat option" where
  "parse_decimal s =
     (let whole = takeWhile is_digit s;
          r1 = dropWhile is_digit s;
          point = (r1 \<noteq> [] \<and> hd r1 = CHR ''.'');
          fraction = (if point then takeWhile is_digit (tl r1) else []);
          r2 = (if point then dropWhile is_digit (tl r1) else r1);
          ex = (if r2 = [] then Some 0
                else if hd r2 = CHR ''e'' \<or> hd r2 = CHR ''E'' then parse_exponent (tl r2)
                else None)
      in if whole = [] \<and> fraction = [] then None
         else
           (case ex of
              None \<Rightarrow> None
            | Some x \<Rightarrow>
                Some (of_nat (radix_value 10 0 (whole @ fraction))
                      * pow10 (x - int (length fraction)))))"

definition signed_literal :: "bool \<Rightarrow> string \<Rightarrow> js_number" where
  "signed_literal negative body =
     (if body = ''Infinity'' then (if negative then NegInfinity else PosInfinity)
      else
        (case parse_decimal body of
           None \<Rightarrow> NaN
         | Some v \<Rightarrow> round_double (if negative then - v else v)))"

definition StringToNumber :: "string \<Rightarrow> js_number" where
  "StringToNumber str =
     (let s = trim str
      in case s of
           [] \<Rightarrow> Num 0
         | c # t \<Rightarrow>
             if c = CHR ''0'' \<and> t \<noteq> [] \<and> (hd t = CHR ''x'' \<or> hd t = CHR ''X'')
               then radix_literal 16 (tl t)
             else if c = CHR ''0'' \<and> t \<noteq> [] \<and> (hd t = CHR ''o'' \<or> hd t = CHR ''O'')
               then radix_literal 8 (tl t)
             else if c = CHR ''0'' \<and> t \<noteq> [] \<and> (hd t = CHR ''b'' \<or> hd t = CHR ''B'')
               then radix_literal 2 (tl t)
             else if c = CHR ''+'' then signed_literal False t
             else if c = CHR ''-'' then signed_literal True t
             else signed_literal False s)"

text \<open>
  \<^verbatim>\<open>ToNumber\<close>, which the operator \<^verbatim>\<open>*\<close> applies to an operand. A \<^verbatim>\<open>Date\<close>
  object gives its time value; the ISO text of a date is not a numeric literal.
\<close>

fun ToNumber :: "jsval \<Rightarrow> js_number" where
  "ToNumber JUndefined = NaN"
| "ToNumber JNull = Num 0"
| "ToNumber (JBool b) = Num (if b then 1 else 0)"
| "ToNumber (JNum n) = Num n"
| "ToNumber (JStr s) = StringToNumber s"
| "ToNumber (JDate (DateObj t)) = Num (of_int t)"
| "ToNumber (JDate (IsoText t)) = NaN"
| "ToNumber JObject = NaN"

subsection \<open>Model: the base class\<close>

text \<open>
  \<^verbatim>\<open>abstract class Model<T>\<close> has the fields \<^verbatim>\<open>data: T\<close>,
  \<^verbatim>\<open>errors: Map<keyof T, string[]>\<close> and \<^verbatim>\<open>isDirty\<close>.
\<close>

record 'd model =
  data :: 'd
  errors :: "(string \<times> string list) list"
  isDirty :: bool

definition hasErrors :: "('d, 'm) model_scheme \<Rightarrow> bool" where
  "hasErrors m = (length (errors m) > 0)"

definition getErrors :: "('d, 'm) model_scheme \<Rightarrow> (string \<times> string list) list" where
  "getErrors m = fromEntries (errors m)"

definition addError :: "string \<Rightarrow> string \<Rightarrow> ('d, 'm) model_scheme \<Rightarrow> ('d, 'm) model_scheme" where
  "addError field message m =
     (let es = (if map_of (errors m) field = None then errors m @ [(field, [])] else errors m)
      in m\<lparr>errors := map (\<lambda>(k, msgs). if k = field then (k, msgs @ [message]) else (k, msgs)) es\<rparr>)"

definition clearErrors :: "('d, 'm) model_scheme \<Rightarrow> ('d, 'm) model_scheme" where
  "clearErrors m = m\<lparr>errors := []\<rparr>"

definition isDirtyField :: "('d, 'm) model_scheme \<Rightarrow> bool" where
  "isDirtyField m = isDirty m"

definition markAsClean :: "('d, 'm) model_scheme \<Rightarrow> ('d, 'm) model_scheme" where
  "markAsClean m = m\<lparr>isDirty := False\<rparr>"

subsection \<open>Asset\<close>

text \<open>
  \<^verbatim>\<open>interface AssetData\<close>. The literal-union type of \<^verbatim>\<open>criticalLevel\<close> is erased at
  run time: the field holds a string. An optional date is \<open>None\<close> when undefined.
\<close>

record asset_data =
  asset_id :: string
  name :: string
  manufacturer :: string
  category :: string
  quantity :: rat
  serialNumber :: string
  criticalLevel :: string
  lastMaintenance :: "date_value option"
  expiryDate :: "date_value option"
  reorderPoint :: rat

text \<open>\<^verbatim>\<open>Partial<AssetData>\<close>, the argument of the constructor: \<open>None\<close> is undefined.\<close>

record asset_input =
  p_id :: "string option"
  p_name :: "string option"
  p_manufacturer :: "string option"
  p_category :: "string option"
  p_quantity :: "rat option"
  p_serialNumber :: "string option"
  p_criticalLevel :: "string option"
  p_lastMaintenance :: "date_value option"
  p_expiryDate :: "date_value option"
  p_reorderPoint :: "rat option"

text \<open>\<^verbatim>\<open>s || d\<close> on an optional string: undefined and the empty string are falsy.\<close>

fun or_default :: "string option \<Rightarrow> string \<Rightarrow> string" where
  "or_default None d = d"
| "or_default (Some s) d = (if s = [] then d else s)"

text \<open>
  \<^verbatim>\<open>Asset.initialize\<close>. \<open>generated\<close> is the value \<^verbatim>\<open>generateId()\<close> returns when
  it is called (\<^verbatim>\<open>utils/id\<close>).
\<close>

definition initialize :: "string \<Rightarrow> 'a asset_input_scheme \<Rightarrow> asset_data" where
  "initialize generated inp =
     \<lparr> asset_id = or_default (p_id inp) generated,
       name = or_default (p_name inp) [],
       manufacturer = or_default (p_manufacturer inp) [],
       category = or_default (p_category inp) [],
       quantity = (case p_quantity inp of Some q \<Rightarrow> q | None \<Rightarrow> 0),
       serialNumber = or_default (p_serialNumber inp) [],
       criticalLevel = or_default (p_criticalLevel inp) ''routine'',
       lastMaintenance = p_lastMaintenance inp,
       expiryDate = p_expiryDate inp,
       reorderPoint = (case p_reorderPoint inp of Some r \<Rightarrow> r | None \<Rightarrow> 10) \<rparr>"

text \<open>\<^verbatim>\<open>new Asset(data)\<close>: the constructor of \<^verbatim>\<open>Model\<close> with \<^verbatim>\<open>Asset.initialize\<close>.\<close>

definition Asset_new :: "string \<Rightarrow> 'a asset_input_scheme \<Rightarrow> asset_data model" where
  "Asset_new generated inp = \<lparr> data = initialize generated inp, errors = [], isDirty = False \<rparr>"

text \<open>\<^verbatim>\<open>Number.isInteger\<close> on a finite number.\<close>

definition isInteger :: "rat \<Rightarrow> bool" where
  "isInteger q = (q = of_int \<lfloor>q\<rfloor>)"

text \<open>
  \<^verbatim>\<open>Asset.validate\<close>: the four groups of checks run one after the other on the
  object, each adding at most one message. The result is the return value and the object
  as the call leaves it. The test \<^verbatim>\<open>quantity === undefined || quantity === null\<close>
  is false for every \<^verbatim>\<open>number\<close>.
\<close>

definition check_name :: "('a asset_data_scheme, 'm) model_scheme \<Rightarrow> ('a asset_data_scheme, 'm) model_scheme" where
  "check_name m =
     (if trim (name (data m)) = [] then addError ''name'' ''Name is required'' m
      else if length (name (data m)) > 100
        then addError ''name'' ''Name must be less than 100 characters'' m
      else m)"

definition check_quantity :: "('a asset_data_scheme, 'm) model_scheme \<Rightarrow> ('a asset_data_scheme, 'm) model_scheme" where
  "check_quantity m =
     (if quantity (data m) < 0 then addError ''quantity'' ''Quantity cannot be negative'' m
      else if quantity (data m) > 999999
        then addError ''quantity'' ''Quantity exceeds maximum allowed value'' m
      else if \<not> isInteger (quantity (data m))
        then addError ''quantity'' ''Quantity must be a whole number'' m
      else m)"

definition check_serialNumber :: "('a asset_data_scheme, 'm) model_scheme \<Rightarrow> ('a asset_data_scheme, 'm) model_scheme" where
  "check_serialNumber m =
     (if serialNumber (data m) = [] then addError ''serialNumber'' ''Serial number is required'' m
      else if \<not> matches_serial (serialNumber (data m))
        then addError ''serialNumber'' ''Invalid serial number format (should be XX-000000)'' m
      else m)"

definition check_reorderPoint :: "('a asset_data_scheme, 'm) model_scheme \<Rightarrow> ('a asset_data_scheme, 'm) model_scheme" where
  "check_reorderPoint m =
     (if reorderPoint (data m) < 0
        then addError ''reorderPoint'' ''Reorder point cannot be negative'' m
      else m)"

definition Asset_validate :: "('a asset_data_scheme, 'm) model_scheme \<Rightarrow> bool \<times> ('a asset_data_scheme, 'm) model_scheme" where
  "Asset_validate m =
     (let m1 = clearErrors m;
          m2 = check_name m1;
          m3 = check_quantity m2;
          m4 = check_serialNumber m3;
          m5 = check_reorderPoint m4
      in (\<not> hasErrors m5, m5))"

text \<open>\<^verbatim>\<open>Asset.isLowStock\<close> and \<^verbatim>\<open>Asset.isCritical\<close>; \<^verbatim>\<open>0.3\<close> is \<open>3 / 10\<close>.\<close>

definition isLowStock :: "('a asset_data_scheme, 'm) model_scheme \<Rightarrow> bool" where
  "isLowStock m =
     (quantity (data m) < reorderPoint (data m)
      \<and> quantity (data m) > reorderPoint (data m) * (3 / 10))"

definition isCritical :: "('a asset_data_scheme, 'm) model_scheme \<Rightarrow> bool" where
  "isCritical m =
     (if criticalLevel (data m) = ''critical'' then True
      else quantity (data m) \<le> reorderPoint (data m) * (3 / 10))"

subsection \<open>HospitalConfig\<close>

text \<open>
  \<^verbatim>\<open>interface FieldConfig\<close> and \<^verbatim>\<open>interface HospitalConfig\<close>. The optional flag
  \<^verbatim>\<open>required\<close> is false when undefined. The members that only drive the display
  (\<^verbatim>\<open>visible\<close>, \<^verbatim>\<open>sortable\<close>, \<^verbatim>\<open>editable\<close>, \<^verbatim>\<open>format\<close>, \<^verbatim>\<open>theme\<close>,
  \<^verbatim>\<open>features\<close>, \<^verbatim>\<open>customCategories\<close>, \<^verbatim>\<open>criticalityLevels\<close>) are left out.
\<close>

datatype field_type = FText | FNumber | FDate | FCurrency | FPercentage | FBoolean

record field_config =
  key :: string
  label :: string
  fieldType :: field_type
  required :: bool

record hospital_config =
  config_id :: string
  config_name :: string
  config_fields :: "field_config list"

subsection \<open>HospitalAsset\<close>

text \<open>
  \<^verbatim>\<open>interface HospitalAssetData extends AssetData\<close>, without \<^verbatim>\<open>customFields\<close>, which
  the class keeps in a \<^verbatim>\<open>Map\<close> of its own. An optional member is \<open>None\<close> when the
  data object has no such key. The literal-union type of \<^verbatim>\<open>condition\<close> is erased at
  run time: the field holds a string.
\<close>

record hospital_asset_data = asset_data +
  location :: "string option"
  condition :: "string option"
  purchasePrice :: "rat option"
  warrantyExpiry :: "date_value option"
  lastCalibration :: "date_value option"

text \<open>
  \<^verbatim>\<open>Partial<HospitalAssetData>\<close>. The plain object \<^verbatim>\<open>customFields\<close> is the list of
  its own entries in enumeration order, which is what \<^verbatim>\<open>Object.entries\<close> returns.
\<close>

record hospital_asset_input = asset_input +
  p_customFields :: "(string \<times> jsval) list option"
  p_location :: "string option"
  p_condition :: "string option"
  p_purchasePrice :: "rat option"
  p_warrantyExpiry :: "date_value option"
  p_lastCalibration :: "date_value option"

record hospital_asset = "hospital_asset_data model" +
  customFields :: "(string \<times> jsval) list"
  hospitalConfig :: hospital_config

text \<open>\<^verbatim>\<open>if (s) ...\<close> on an optional string keeps a non-empty string only.\<close>

fun truthy_string :: "string option \<Rightarrow> string option" where
  "truthy_string None = None"
| "truthy_string (Some s) = (if s \<noteq> [] then Some s else None)"

text \<open>\<^verbatim>\<open>if (n) ...\<close> on an optional number keeps a non-zero number only.\<close>

fun truthy_number :: "rat option \<Rightarrow> rat option" where
  "truthy_number None = None"
| "truthy_number (Some n) = (if n \<noteq> 0 then Some n else None)"

text \<open>
  The constructor of \<^verbatim>\<open>HospitalAsset\<close>: \<^verbatim>\<open>super(data)\<close> builds the base data, the
  custom fields are the entries of \<^verbatim>\<open>data.customFields || {}\<close>, and each typed member
  is stored when it is truthy; a truthy \<^verbatim>\<open>purchasePrice\<close> is also set in the custom
  fields. A date object and an ISO text are both truthy.
\<close>

definition HospitalAsset_new :: "string \<Rightarrow> hospital_asset_input \<Rightarrow> hospital_config \<Rightarrow> hospital_asset" where
  "HospitalAsset_new generated inp config =
     (let base = initialize generated inp;
          entries = (case p_customFields inp of None \<Rightarrow> [] | Some obj \<Rightarrow> obj);
          price = truthy_number (p_purchasePrice inp)
      in \<lparr> data =
             \<lparr> asset_id = asset_id base, name = name base, manufacturer = manufacturer base,
               category = category base, quantity = quantity base,
               serialNumber = serialNumber base, criticalLevel = criticalLevel base,
               lastMaintenance = lastMaintenance base, expiryDate = expiryDate base,
               reorderPoint = reorderPoint base,
               location = truthy_string (p_location inp),
               condition = truthy_string (p_condition inp),
               purchasePrice = price,
               warrantyExpiry = p_warrantyExpiry inp,
               lastCalibration = p_lastCalibration inp \<rparr>,
           errors = [],
           isDirty = False,
           customFields =
             (case price of None \<Rightarrow> entries
              | Some p \<Rightarrow> map_set ''purchasePrice'' (JNum p) entries),
           hospitalConfig = config \<rparr>)"

text \<open>\<^verbatim>\<open>Map.prototype.get\<close> gives undefined for a missing key.\<close>

definition getCustomField :: "hospital_asset \<Rightarrow> string \<Rightarrow> jsval" where
  "getCustomField m k = (case map_of (customFields m) k of None \<Rightarrow> JUndefined | Some v \<Rightarrow> v)"

definition setCustomField :: "string \<Rightarrow> jsval \<Rightarrow> hospital_asset \<Rightarrow> hospital_asset" where
  "setCustomField k v m = m\<lparr>customFields := map_set k v (customFields m), isDirty := True\<rparr>"

definition getAllCustomFields :: "hospital_asset \<Rightarrow> (string \<times> jsval) list" where
  "getAllCustomFields m = fromEntries (customFields m)"

text \<open>
  \<^verbatim>\<open>Asset.serialize\<close>: the base data with the two dates as ISO texts. The object
  literal is evaluated left to right, so the first failing conversion throws.
\<close>

definition Asset_serialize :: "('a asset_data_scheme, 'm) model_scheme \<Rightarrow> js_error + asset_input" where
  "Asset_serialize m =
     (case toISOString_opt (lastMaintenance (data m)) of
        Inl e \<Rightarrow> Inl e
      | Inr lm \<Rightarrow>
          (case toISOString_opt (expiryDate (data m)) of
             Inl e \<Rightarrow> Inl e
           | Inr ed \<Rightarrow>
               Inr \<lparr> p_id = Some (asset_id (data m)), p_name = Some (name (data m)),
                     p_manufacturer = Some (manufacturer (data m)),
                     p_category = Some (category (data m)),
                     p_quantity = Some (quantity (data m)),
                     p_serialNumber = Some (serialNumber (data m)),
                     p_criticalLevel = Some (criticalLevel (data m)),
                     p_lastMaintenance = lm, p_expiryDate = ed,
                     p_reorderPoint = Some (reorderPoint (data m)) \<rparr>))"

text \<open>\<^verbatim>\<open>HospitalAsset.serialize\<close>: the base record, then the members it adds.\<close>

definition HospitalAsset_serialize :: "hospital_asset \<Rightarrow> js_error + hospital_asset_input" where
  "HospitalAsset_serialize m =
     (case Asset_serialize m of
        Inl e \<Rightarrow> Inl e
      | Inr base \<Rightarrow>
          (case toISOString_opt (warrantyExpiry (data m)) of
             Inl e \<Rightarrow> Inl e
           | Inr we \<Rightarrow>
               (case toISOString_opt (lastCalibration (data m)) of
                  Inl e \<Rightarrow> Inl e
                | Inr lc \<Rightarrow>
                    Inr \<lparr> p_id = p_id base, p_name = p_name base,
                          p_manufacturer = p_manufacturer base, p_category = p_category base,
                          p_quantity = p_quantity base, p_serialNumber = p_serialNumber base,
                          p_criticalLevel = p_criticalLevel base,
                          p_lastMaintenance = p_lastMaintenance base,
                          p_expiryDate = p_expiryDate base,
                          p_reorderPoint = p_reorderPoint base,
                          p_customFields = Some (getAllCustomFields m),
                          p_location = location (data m),
                          p_condition = condition (data m),
                          p_purchasePrice = purchasePrice (data m),
                          p_warrantyExpiry = we, p_lastCalibration = lc \<rparr>)))"

text \<open>
  \<^verbatim>\<open>this.data[key]\<close> when \<^verbatim>\<open>key in this.data\<close>: the value of a key that the data
  object has, own or inherited, and \<open>None\<close> for a key it does not have. The ten members that
  \<^verbatim>\<open>initialize\<close> writes are always own keys; the five added members are own keys
  once they are stored.
\<close>

definition optional_date :: "date_value option \<Rightarrow> jsval" where
  "optional_date d = (case d of None \<Rightarrow> JUndefined | Some v \<Rightarrow> JDate v)"

definition data_member :: "hospital_asset_data \<Rightarrow> string \<Rightarrow> jsval option" where
  "data_member d k =
     (if k = ''id'' then Some (JStr (asset_id d))
      else if k = ''name'' then Some (JStr (name d))
      else if k = ''manufacturer'' then Some (JStr (manufacturer d))
      else if k = ''category'' then Some (JStr (category d))
      else if k = ''quantity'' then Some (JNum (quantity d))
      else if k = ''serialNumber'' then Some (JStr (serialNumber d))
      else if k = ''criticalLevel'' then Some (JStr (criticalLevel d))
      else if k = ''lastMaintenance'' then Some (optional_date (lastMaintenance d))
      else if k = ''expiryDate'' then Some (optional_date (expiryDate d))
      else if k = ''reorderPoint'' then Some (JNum (reorderPoint d))
      else if k = ''location'' then map_option JStr (location d)
      else if k = ''condition'' then map_option JStr (condition d)
      else if k = ''purchasePrice'' then map_option JNum (purchasePrice d)
      else if k = ''warrantyExpiry'' then map_option JDate (warrantyExpiry d)
      else if k = ''lastCalibration'' then map_option JDate (lastCalibration d)
      else if k \<in> set inherited_keys then Some JObject
      else None)"

text \<open>\<^verbatim>\<open>value === undefined || value === null || value === ''\<close>.\<close>

definition is_missing :: "jsval \<Rightarrow> bool" where
  "is_missing v = (v = JUndefined \<or> v = JNull \<or> v = JStr [])"

text \<open>
  \<^verbatim>\<open>key in this.data ? this.data[key] : this.customFields.get(key)\<close>.
\<close>

definition field_value :: "hospital_asset \<Rightarrow> string \<Rightarrow> jsval" where
  "field_value m k =
     (case data_member (data m) k of Some x \<Rightarrow> x | None \<Rightarrow> getCustomField m k)"

text \<open>
  The loop of \<^verbatim>\<open>HospitalAsset.validate\<close> over the configured fields: its body,
  and the loop.
\<close>

definition check_field :: "field_config \<Rightarrow> hospital_asset \<Rightarrow> hospital_asset" where
  "check_field fieldConfig m =
     (if required fieldConfig then
        (let v = field_value m (key fieldConfig)
         in if is_missing v
            then addError (key fieldConfig) (label fieldConfig @ '' is required'') m
            else m)
      else m)"

fun check_required :: "field_config list \<Rightarrow> hospital_asset \<Rightarrow> hospital_asset" where
  "check_required [] m = m"
| "check_required (fieldConfig # rest) m = check_required rest (check_field fieldConfig m)"

definition HospitalAsset_validate :: "hospital_asset \<Rightarrow> bool \<times> hospital_asset" where
  "HospitalAsset_validate m =
     (let (baseValid, m1) = Asset_validate m;
          m2 = check_required (config_fields (hospitalConfig m1)) m1
      in (baseValid \<and> \<not> hasErrors m2, m2))"

subsection \<open>The heap, the repository and the store\<close>

text \<open>
  The repository and the store hold references to \<^verbatim>\<open>HospitalAsset\<close> objects, and the
  store holds its working set in an array that \<^verbatim>\<open>push\<close> and \<^verbatim>\<open>sort\<close> change in
  place. A reference to an object is a key of \<open>objects\<close>; an array of references is an
  entry of \<open>arrays\<close>, its address is its index, and a new array goes last.

  \<^item> \<open>storage\<close> is \<^verbatim>\<open>Repository.storage\<close> of the singleton \<^verbatim>\<open>AssetRepository\<close>.
  \<^item> \<open>localStorage\<close> is the item under \<^verbatim>\<open>hospital_inventory_assets\<close>, \<open>None\<close> when
    there is none; the JSON text is kept as the list it encodes. A write that the
    browser refuses is outside the model.
  \<^item> \<open>saveCalls\<close> is a history variable, not a field of the program: the arguments of
    the calls of \<^verbatim>\<open>AssetRepository.save\<close> so far, oldest first.
  \<^item> The other fields are the refs of the store \<^verbatim>\<open>useAssetStore\<close>; \<open>assets\<close> is the
    address of the array in \<^verbatim>\<open>assets.value\<close>.

  The asynchronous functions are run to completion one at a time.
\<close>

type_synonym ref = nat

datatype sort_field = SortName | SortQuantity | SortCategory

datatype sort_direction = Asc | Desc

datatype active_filter = FilterAll | FilterCritical | FilterLowStock

record world =
  objects :: "ref \<Rightarrow> hospital_asset"
  arrays :: "ref list list"
  storage :: "(string \<times> ref) list"
  localStorage :: "(string \<times> hospital_asset_input) list option"
  saveCalls :: "ref list"
  assets :: ref
  loading :: bool
  error :: "string option"
  searchQuery :: string
  selectedCategory :: "string option"
  sortBy :: sort_field
  sortDirection :: sort_direction
  activeFilter :: active_filter

definition read_array :: "world \<Rightarrow> ref \<Rightarrow> ref list" where
  "read_array w a = (if a < length (arrays w) then arrays w ! a else [])"

definition new_array :: "ref list \<Rightarrow> world \<Rightarrow> ref \<times> world" where
  "new_array xs w = (length (arrays w), w\<lparr>arrays := arrays w @ [xs]\<rparr>)"

text \<open>\<^verbatim>\<open>a.filter(p)\<close> builds a new array and leaves \<open>a\<close> as it is.\<close>

definition array_filter :: "(hospital_asset \<Rightarrow> bool) \<Rightarrow> ref \<Rightarrow> world \<Rightarrow> ref \<times> world" where
  "array_filter p a w = new_array (filter (\<lambda>r. p (objects w r)) (read_array w a)) w"

text \<open>
  \<^verbatim>\<open>Array.prototype.sort(cmp)\<close> is stable, and with a comparator that orders the
  elements consistently its result is determined: each element, from the last to the
  first, goes in front of the first element it does not exceed.
\<close>

fun insert_by :: "('a \<Rightarrow> 'a \<Rightarrow> int) \<Rightarrow> 'a \<Rightarrow> 'a list \<Rightarrow> 'a list" where
  "insert_by cmp x [] = [x]"
| "insert_by cmp x (y # ys) = (if cmp x y \<le> 0 then x # y # ys else y # insert_by cmp x ys)"

definition sort_by :: "('a \<Rightarrow> 'a \<Rightarrow> int) \<Rightarrow> 'a list \<Rightarrow> 'a list" where
  "sort_by cmp xs = foldr (insert_by cmp) xs []"

text \<open>\<^verbatim>\<open>a.sort(cmp)\<close> sorts the array at address \<open>a\<close> in place.\<close>

definition array_sort :: "(hospital_asset \<Rightarrow> hospital_asset \<Rightarrow> int) \<Rightarrow> ref \<Rightarrow> world \<Rightarrow> world" where
  "array_sort cmp a w =
     w\<lparr>arrays := (arrays w)[a := sort_by (\<lambda>x y. cmp (objects w x) (objects w y)) (read_array w a)]\<rparr>"

text \<open>\<^verbatim>\<open>a.push(r)\<close> appends in place.\<close>

definition array_push :: "ref \<Rightarrow> ref \<Rightarrow> world \<Rightarrow> world" where
  "array_push r a w = w\<lparr>arrays := (arrays w)[a := read_array w a @ [r]]\<rparr>"

subsubsection \<open>Repository and AssetRepository\<close>

fun message :: "js_error \<Rightarrow> string" where
  "message (JsError m) = m"
| "message (JsTypeError m) = m"

text \<open>\<^verbatim>\<open>Object.values(errors)[0]?.[0] || 'Validation failed'\<close>.\<close>

definition firstError :: "(string \<times> string list) list \<Rightarrow> string" where
  "firstError errs =
     (case map snd errs of
        [] \<Rightarrow> ''Validation failed''
      | msgs # _ \<Rightarrow>
          (case msgs of
             [] \<Rightarrow> ''Validation failed''
           | m # _ \<Rightarrow> if m = [] then ''Validation failed'' else m))"

text \<open>
  \<^verbatim>\<open>Repository.beforeSave\<close>: \<^verbatim>\<open>validate()\<close> changes the object, then the check may
  throw.
\<close>

definition beforeSave :: "ref \<Rightarrow> world \<Rightarrow> (js_error + unit) \<times> world" where
  "beforeSave r w =
     (let (valid, m) = HospitalAsset_validate (objects w r);
          w1 = w\<lparr>objects := (objects w)(r := m)\<rparr>
      in if \<not> valid
         then (Inl (JsError (''Model validation failed: '' @ firstError (getErrors m))), w1)
         else (Inr (), w1))"

definition afterSave :: "ref \<Rightarrow> world \<Rightarrow> world" where
  "afterSave r w = w\<lparr>objects := (objects w)(r := markAsClean (objects w r))\<rparr>"

text \<open>
  \<^verbatim>\<open>AssetRepository.saveToLocalStorage\<close>: the entries of the storage are serialized
  in order; an exception is caught and logged, and nothing is written then.
\<close>

fun serialize_entries :: "(ref \<Rightarrow> hospital_asset) \<Rightarrow> (string \<times> ref) list \<Rightarrow> js_error + (string \<times> hospital_asset_input) list" where
  "serialize_entries objs [] = Inr []"
| "serialize_entries objs ((i, r) # rest) =
     (case HospitalAsset_serialize (objs r) of
        Inl e \<Rightarrow> Inl e
      | Inr d \<Rightarrow>
          (case serialize_entries objs rest of
             Inl e \<Rightarrow> Inl e
           | Inr ds \<Rightarrow> Inr ((i, d) # ds)))"

definition saveToLocalStorage :: "world \<Rightarrow> world" where
  "saveToLocalStorage w =
     (case serialize_entries (objects w) (storage w) of
        Inl e \<Rightarrow> w
      | Inr entries \<Rightarrow> w\<lparr>localStorage := Some entries\<rparr>)"

text \<open>\<^verbatim>\<open>AssetRepository.save\<close>.\<close>

definition save :: "ref \<Rightarrow> world \<Rightarrow> (js_error + unit) \<times> world" where
  "save r w =
     (let w0 = w\<lparr>saveCalls := saveCalls w @ [r]\<rparr>
      in case beforeSave r w0 of
           (Inl e, w1) \<Rightarrow> (Inl e, w1)
         | (Inr u, w1) \<Rightarrow>
             (let i = asset_id (data (objects w1 r));
                  w2 = w1\<lparr>storage := map_set i r (storage w1)\<rparr>;
                  w3 = afterSave r w2;
                  w4 = saveToLocalStorage w3
              in (Inr (), w4)))"

text \<open>\<^verbatim>\<open>AssetRepository.findById\<close>; \<open>None\<close> is \<^verbatim>\<open>null\<close>.\<close>

definition findById :: "string \<Rightarrow> world \<Rightarrow> ref option" where
  "findById i w = map_of (storage w) i"

subsubsection \<open>The store\<close>

text \<open>
  The comparator of \<^verbatim>\<open>filteredAssets\<close>: \<^verbatim>\<open>a.get(sortBy.value)\<close> is a string for
  \<^verbatim>\<open>name\<close> and \<^verbatim>\<open>category\<close> and a number for \<^verbatim>\<open>quantity\<close>.
\<close>

definition comparison :: "sort_field \<Rightarrow> hospital_asset \<Rightarrow> hospital_asset \<Rightarrow> int" where
  "comparison field a b =
     (case field of
        SortName \<Rightarrow>
          (if name (data a) > name (data b) then 1
           else if name (data a) < name (data b) then - 1 else 0)
      | SortQuantity \<Rightarrow>
          (if quantity (data a) > quantity (data b) then 1
           else if quantity (data a) < quantity (data b) then - 1 else 0)
      | SortCategory \<Rightarrow>
          (if category (data a) > category (data b) then 1
           else if category (data a) < category (data b) then - 1 else 0))"

definition sort_comparator :: "sort_field \<Rightarrow> sort_direction \<Rightarrow> hospital_asset \<Rightarrow> hospital_asset \<Rightarrow> int" where
  "sort_comparator field direction a b =
     (if direction = Asc then comparison field a b else - comparison field a b)"

definition matches_query :: "string \<Rightarrow> hospital_asset \<Rightarrow> bool" where
  "matches_query query asset =
     (str_includes (toLowerCase (name (data asset))) query
      \<or> str_includes (toLowerCase (serialNumber (data asset))) query
      \<or> str_includes (toLowerCase (manufacturer (data asset))) query)"

text \<open>
  The computed \<^verbatim>\<open>filteredAssets\<close>: the address of the array it returns, and the
  heap after it ran. \<^verbatim>\<open>[...assets.value]\<close> is a new array; a string is truthy when
  it is not empty, and \<^verbatim>\<open>null\<close> is falsy.
\<close>

definition filteredAssets :: "world \<Rightarrow> ref \<times> world" where
  "filteredAssets w =
     (let (result, w1) = new_array (read_array w (assets w)) w;
          (result, w2) =
            (if activeFilter w1 = FilterCritical then array_filter isCritical result w1
             else if activeFilter w1 = FilterLowStock then array_filter isLowStock result w1
             else (result, w1));
          (result, w3) =
            (if searchQuery w2 \<noteq> []
             then array_filter (matches_query (toLowerCase (searchQuery w2))) result w2
             else (result, w2));
          (result, w4) =
            (case selectedCategory w3 of
               None \<Rightarrow> (result, w3)
             | Some c \<Rightarrow>
                 if c \<noteq> [] then array_filter (\<lambda>asset. category (data asset) = c) result w3
                 else (result, w3));
          w5 = array_sort (sort_comparator (sortBy w4) (sortDirection w4)) result w4
      in (result, w5))"

text \<open>
  The computed values that only read: each is given by the contents of the array it
  returns.
\<close>

definition criticalAssets :: "world \<Rightarrow> ref list" where
  "criticalAssets w = filter (\<lambda>a. isCritical (objects w a)) (read_array w (assets w))"

definition lowStockAssets :: "world \<Rightarrow> ref list" where
  "lowStockAssets w = filter (\<lambda>a. isLowStock (objects w a)) (read_array w (assets w))"

text \<open>\<^verbatim>\<open>v || 0\<close>.\<close>

definition or_zero :: "jsval \<Rightarrow> jsval" where
  "or_zero v = (if truthy v then v else JNum 0)"

text \<open>
  The computed \<^verbatim>\<open>totalValue\<close>: \<^verbatim>\<open>reduce\<close> from the left, starting at 0, with
  the step \<^verbatim>\<open>sum + (quantity * price)\<close>. The operator \<^verbatim>\<open>*\<close> converts the price
  to a number; the quantity is one.
\<close>

definition add_value :: "world \<Rightarrow> js_number \<Rightarrow> ref \<Rightarrow> js_number" where
  "add_value w sum0 asset =
     (let q = quantity (data (objects w asset));
          price = or_zero (getCustomField (objects w asset) ''purchasePrice'')
      in js_plus sum0 (js_times (Num q) (ToNumber price)))"

definition totalValue :: "world \<Rightarrow> js_number" where
  "totalValue w = foldl (add_value w) (Num 0) (read_array w (assets w))"

text \<open>
  The computed \<^verbatim>\<open>categories\<close>: the set of the categories, then the default sort,
  which orders strings by code units.
\<close>

definition categories :: "world \<Rightarrow> string list" where
  "categories w = sort (remdups (map (\<lambda>a. category (data (objects w a))) (read_array w (assets w))))"

text \<open>
  The object that the computed \<^verbatim>\<open>statistics\<close> returns; its member
  \<^verbatim>\<open>totalValue\<close> is the field \<open>totalValueStat\<close>.
\<close>

record statistics_record =
  totalAssets :: nat
  totalValueStat :: js_number
  criticalCount :: nat
  lowStockCount :: nat
  categoriesCount :: nat

definition statistics :: "world \<Rightarrow> statistics_record" where
  "statistics w =
     \<lparr> totalAssets = length (read_array w (assets w)),
       totalValueStat = totalValue w,
       criticalCount = length (criticalAssets w),
       lowStockCount = length (lowStockAssets w),
       categoriesCount = length (categories w) \<rparr>"

text \<open>
  The message that \<^verbatim>\<open>createAsset\<close> composes from \<^verbatim>\<open>getErrors()\<close>: the template
  \<^verbatim>\<open>`${field}: ${msg}`\<close> turns the array \<^verbatim>\<open>msg\<close> into its elements joined by commas.
\<close>

definition composed_message :: "(string \<times> string list) list \<Rightarrow> string" where
  "composed_message errs =
     ''Validation failed: '' @ join '', '' (map (\<lambda>(field, msg). field @ '': '' @ join '','' msg) errs)"

text \<open>
  \<^verbatim>\<open>createAsset\<close>: the early \<^verbatim>\<open>return\<close>, the \<^verbatim>\<open>catch\<close> and the
  \<^verbatim>\<open>finally\<close> are the three ways out of the \<^verbatim>\<open>try\<close>.
\<close>

definition createAsset :: "ref \<Rightarrow> world \<Rightarrow> world" where
  "createAsset asset w =
     (let w1 = w\<lparr>loading := True, error := None\<rparr>;
          (valid, m) = HospitalAsset_validate (objects w1 asset);
          w2 = w1\<lparr>objects := (objects w1)(asset := m)\<rparr>;
          w3 =
            (if \<not> valid then w2\<lparr>error := Some (composed_message (getErrors m))\<rparr>
             else
               (case save asset w2 of
                  (Inl e, w') \<Rightarrow> w'\<lparr>error := Some (message e)\<rparr>
                | (Inr u, w') \<Rightarrow> array_push asset (assets w') w'))
      in w3\<lparr>loading := False\<rparr>)"

subsection \<open>Notions used to state the properties\<close>

text \<open>
  Serializing an asset and handing the record to the constructor again, as
  \<^verbatim>\<open>new HospitalAsset(asset.serialize(), config)\<close> does.
\<close>

definition reconstruct :: "string \<Rightarrow> hospital_config \<Rightarrow> hospital_asset \<Rightarrow> js_error + hospital_asset" where
  "reconstruct generated config m =
     (case HospitalAsset_serialize m of
        Inl e \<Rightarrow> Inl e
      | Inr r \<Rightarrow> Inr (HospitalAsset_new generated r config))"

text \<open>
  Two assets have equivalent field values: the fields that are not dates are equal, the
  custom fields have the same entries, and each date field is absent in both or holds
  the same instant in both, as an object or as an ISO text.
\<close>

definition equivalent_fields :: "hospital_asset \<Rightarrow> hospital_asset \<Rightarrow> bool" where
  "equivalent_fields m m' =
     (asset_id (data m') = asset_id (data m) \<and> name (data m') = name (data m)
      \<and> manufacturer (data m') = manufacturer (data m)
      \<and> category (data m') = category (data m)
      \<and> quantity (data m') = quantity (data m)
      \<and> serialNumber (data m') = serialNumber (data m)
      \<and> criticalLevel (data m') = criticalLevel (data m)
      \<and> reorderPoint (data m') = reorderPoint (data m)
      \<and> location (data m') = location (data m)
      \<and> condition (data m') = condition (data m)
      \<and> purchasePrice (data m') = purchasePrice (data m)
      \<and> set (customFields m') = set (customFields m)
      \<and> map_option instant (lastMaintenance (data m')) = map_option instant (lastMaintenance (data m))
      \<and> map_option instant (expiryDate (data m')) = map_option instant (expiryDate (data m))
      \<and> map_option instant (warrantyExpiry (data m')) = map_option instant (warrantyExpiry (data m))
      \<and> map_option instant (lastCalibration (data m')) = map_option instant (lastCalibration (data m)))"

text \<open>An optional date field is absent or holds a \<^verbatim>\<open>Date\<close> object.\<close>

fun date_object_or_absent :: "date_value option \<Rightarrow> bool" where
  "date_object_or_absent None = True"
| "date_object_or_absent (Some (DateObj t)) = True"
| "date_object_or_absent (Some (IsoText t)) = False"

text \<open>
  The typed price is absent, or it is not zero and the custom fields hold the same
  number under \<^verbatim>\<open>purchasePrice\<close>.
\<close>

fun price_in_sync :: "rat option \<Rightarrow> (string \<times> jsval) list \<Rightarrow> bool" where
  "price_in_sync None cf = True"
| "price_in_sync (Some p) cf = (p \<noteq> 0 \<and> map_of cf ''purchasePrice'' = Some (JNum p))"

text \<open>
  The sum of a list of numbers in the arithmetic of the runtime: from the left, starting
  at 0.
\<close>

definition js_sum :: "js_number list \<Rightarrow> js_number" where
  "js_sum xs = foldl js_plus (Num 0) xs"

text \<open>
  The custom field \<^verbatim>\<open>purchasePrice\<close> of an asset taken as a number: 0 when it is
  absent (no entry, or undefined), and else the number that the value converts to.
\<close>

definition price_taken :: "hospital_asset \<Rightarrow> js_number" where
  "price_taken m =
     (case map_of (customFields m) ''purchasePrice'' of
        None \<Rightarrow> Num 0
      | Some v \<Rightarrow> if v = JUndefined then Num 0 else ToNumber v)"

text \<open>
  The quantity of an asset and its price are whole numbers, and the exact product of
  the two.
\<close>

definition whole_valued :: "hospital_asset \<Rightarrow> bool" where
  "whole_valued m =
     (isInteger (quantity (data m))
      \<and> (case price_taken m of Num p \<Rightarrow> isInteger p | _ \<Rightarrow> False))"

definition exact_value :: "hospital_asset \<Rightarrow> rat" where
  "exact_value m = quantity (data m) * (case price_taken m of Num p \<Rightarrow> p | _ \<Rightarrow> 0)"

text \<open>
  The three filters of the filtered view, in the words of the specification. A category
  is selected when \<^verbatim>\<open>selectedCategory\<close> is a string that is not empty; \<^verbatim>\<open>null\<close>
  and the empty string select none.
\<close>

definition passes_active_filter :: "active_filter \<Rightarrow> hospital_asset \<Rightarrow> bool" where
  "passes_active_filter f a =
     (case f of FilterAll \<Rightarrow> True | FilterCritical \<Rightarrow> isCritical a | FilterLowStock \<Rightarrow> isLowStock a)"

definition contains_ignoring_case :: "string \<Rightarrow> string \<Rightarrow> bool" where
  "contains_ignoring_case s q = str_includes (toLowerCase s) (toLowerCase q)"

definition passes_search :: "string \<Rightarrow> hospital_asset \<Rightarrow> bool" where
  "passes_search q a =
     (q = [] \<or> contains_ignoring_case (name (data a)) q
      \<or> contains_ignoring_case (serialNumber (data a)) q
      \<or> contains_ignoring_case (manufacturer (data a)) q)"

definition passes_category :: "string option \<Rightarrow> hospital_asset \<Rightarrow> bool" where
  "passes_category c a =
     (case c of None \<Rightarrow> True | Some s \<Rightarrow> s = [] \<or> category (data a) = s)"

definition filtered_unsorted :: "world \<Rightarrow> ref list" where
  "filtered_unsorted w =
     filter (\<lambda>r. passes_category (selectedCategory w) (objects w r))
       (filter (\<lambda>r. passes_search (searchQuery w) (objects w r))
          (filter (\<lambda>r. passes_active_filter (activeFilter w) (objects w r))
             (read_array w (assets w))))"

text \<open>
  Two assets stand in the order of the sort field and direction, and two assets have
  equal sort keys.
\<close>

definition key_le :: "sort_field \<Rightarrow> hospital_asset \<Rightarrow> hospital_asset \<Rightarrow> bool" where
  "key_le f a b =
     (case f of
        SortName \<Rightarrow> name (data a) \<le> name (data b)
      | SortQuantity \<Rightarrow> quantity (data a) \<le> quantity (data b)
      | SortCategory \<Rightarrow> category (data a) \<le> category (data b))"

definition in_sort_order :: "sort_field \<Rightarrow> sort_direction \<Rightarrow> hospital_asset \<Rightarrow> hospital_asset \<Rightarrow> bool" where
  "in_sort_order f d a b = (case d of Asc \<Rightarrow> key_le f a b | Desc \<Rightarrow> key_le f b a)"

definition same_sort_key :: "sort_field \<Rightarrow> hospital_asset \<Rightarrow> hospital_asset \<Rightarrow> bool" where
  "same_sort_key f a b =
     (case f of
        SortName \<Rightarrow> name (data a) = name (data b)
      | SortQuantity \<Rightarrow> quantity (data a) = quantity (data b)
      | SortCategory \<Rightarrow> category (data a) = category (data b))"

text \<open>Every recorded field has a first message, and that message is not empty.\<close>

definition first_messages_present :: "(string \<times> string list) list \<Rightarrow> bool" where
  "first_messages_present errs = list_all (\<lambda>e. snd e \<noteq> [] \<and> hd (snd e) \<noteq> []) errs"

subsection \<open>Fixtures of the test suites\<close>

text \<open>\<^verbatim>\<open>MedicalDataGenerator.getDefaultConfig()\<close>.\<close>

definition getDefaultConfig :: hospital_config where
  "getDefaultConfig =
     \<lparr> config_id = ''default'', config_name = ''Default Hospital'',
       config_fields =
         [\<lparr>key = ''name'', label = ''Name'', fieldType = FText, required = True\<rparr>,
          \<lparr>key = ''manufacturer'', label = ''Manufacturer'', fieldType = FText, required = True\<rparr>,
          \<lparr>key = ''category'', label = ''Category'', fieldType = FText, required = True\<rparr>,
          \<lparr>key = ''serialNumber'', label = ''Serial Number'', fieldType = FText, required = True\<rparr>,
          \<lparr>key = ''quantity'', label = ''Quantity'', fieldType = FNumber, required = True\<rparr>,
          \<lparr>key = ''department'', label = ''Department'', fieldType = FText, required = False\<rparr>,
          \<lparr>key = ''purchasePrice'', label = ''Purchase Price'', fieldType = FCurrency, required = False\<rparr>,
          \<lparr>key = ''warrantyExpiry'', label = ''Warranty Expiry'', fieldType = FDate, required = False\<rparr>,
          \<lparr>key = ''lastCalibration'', label = ''Last Calibration'', fieldType = FDate, required = False\<rparr>] \<rparr>"

text \<open>The asset of \<^verbatim>\<open>Asset.test.ts\<close>.\<close>

definition ventilator :: "asset_data model" where
  "ventilator = Asset_new ''generated''
     \<lparr> p_id = None, p_name = Some ''Ventilator'', p_manufacturer = Some ''MedTech'',
       p_category = Some ''Life Support'', p_quantity = Some 5,
       p_serialNumber = Some ''LS-123456'', p_criticalLevel = Some ''critical'',
       p_lastMaintenance = None, p_expiryDate = None, p_reorderPoint = Some 10 \<rparr>"

text \<open>The two assets of the statistics tests of the store.\<close>

definition asset1 :: hospital_asset where
  "asset1 = HospitalAsset_new ''generated''
     \<lparr> p_id = Some ''1'', p_name = Some ''Asset 1'', p_manufacturer = Some ''MedTech'',
       p_category = Some ''Life Support'', p_quantity = Some 2,
       p_serialNumber = Some ''A1-123456'', p_criticalLevel = Some ''critical'',
       p_lastMaintenance = None, p_expiryDate = None, p_reorderPoint = Some 3,
       p_customFields = Some [(''purchasePrice'', JNum 1000)], p_location = None,
       p_condition = None, p_purchasePrice = None, p_warrantyExpiry = None,
       p_lastCalibration = None \<rparr> getDefaultConfig"

definition asset2 :: hospital_asset where
  "asset2 = HospitalAsset_new ''generated''
     \<lparr> p_id = Some ''2'', p_name = Some ''Asset 2'', p_manufacturer = Some ''Global'',
       p_category = Some ''Diagnostic'', p_quantity = Some 5,
       p_serialNumber = Some ''A2-123456'', p_criticalLevel = Some ''essential'',
       p_lastMaintenance = None, p_expiryDate = None, p_reorderPoint = Some 1,
       p_customFields = Some [(''purchasePrice'', JNum 500)], p_location = None,
       p_condition = None, p_purchasePrice = None, p_warrantyExpiry = None,
       p_lastCalibration = None \<rparr> getDefaultConfig"

text \<open>The asset of the creation tests of the store, and one with a malformed serial number.\<close>

definition new_equipment_input :: hospital_asset_input where
  "new_equipment_input =
     \<lparr> p_id = Some ''1'', p_name = Some ''New Equipment'', p_manufacturer = Some ''MedTech'',
       p_category = Some ''Diagnostic'', p_quantity = Some 10,
       p_serialNumber = Some ''NE-123456'', p_criticalLevel = None,
       p_lastMaintenance = None, p_expiryDate = None, p_reorderPoint = None,
       p_customFields = None, p_location = None, p_condition = None,
       p_purchasePrice = None, p_warrantyExpiry = None, p_lastCalibration = None \<rparr>"

definition new_equipment :: hospital_asset where
  "new_equipment = HospitalAsset_new ''generated'' new_equipment_input getDefaultConfig"

definition bad_serial :: hospital_asset where
  "bad_serial =
     HospitalAsset_new ''generated''
       (new_equipment_input\<lparr>p_id := Some ''2'', p_serialNumber := Some ''INVALID''\<rparr>)
       getDefaultConfig"

text \<open>
  The store as \<^verbatim>\<open>useAssetStore\<close> sets it up, over an empty repository: the working
  set is an empty array, at address 0.
\<close>

definition initial_world :: "(ref \<Rightarrow> hospital_asset) \<Rightarrow> world" where
  "initial_world objs =
     \<lparr> objects = objs, arrays = [[]], storage = [], localStorage = None, saveCalls = [],
       assets = 0, loading = False, error = None, searchQuery = [],
       selectedCategory = None, sortBy = SortName, sortDirection = Asc,
       activeFilter = FilterAll \<rparr>"

text \<open>The store of the statistics tests: \<^verbatim>\<open>store.assets = [asset1, asset2]\<close>.\<close>

definition statistics_world :: world where
  "statistics_world = (initial_world (\<lambda>r. if r = 0 then asset1 else asset2))\<lparr>arrays := [[0, 1]]\<rparr>"

text \<open>
  The first asset of the statistics tests with its price given as the text
  \<^verbatim>\<open>'1000'\<close>, and five units at a price of \<^verbatim>\<open>1234.56\<close>, which is the double
  \<open>2714826150374277 / 2^41\<close>; and the stores over one and the other.
\<close>

definition text_priced :: hospital_asset where
  "text_priced = setCustomField ''purchasePrice'' (JStr ''1000'') asset1"

definition fraction_priced :: hospital_asset where
  "fraction_priced =
     setCustomField ''purchasePrice'' (JNum (2714826150374277 / 2199023255552)) asset2"

definition text_priced_world :: world where
  "text_priced_world = (initial_world (\<lambda>r. text_priced))\<lparr>arrays := [[0]]\<rparr>"

definition fraction_priced_world :: world where
  "fraction_priced_world = (initial_world (\<lambda>r. fraction_priced))\<lparr>arrays := [[0]]\<rparr>"

text \<open>A store over the valid asset, at reference 0, and the malformed one, at reference 1.\<close>

definition creation_world :: world where
  "creation_world = initial_world (\<lambda>r. if r = 0 then new_equipment else bad_serial)"

text \<open>
  An asset built with a price of 50000 whose custom field \<^verbatim>\<open>purchasePrice\<close> is set to
  another number afterwards, and what reconstructing it gives.
\<close>

definition repriced :: hospital_asset where
  "repriced =
     setCustomField ''purchasePrice'' (JNum 42000)
       (HospitalAsset_new ''generated''
          (new_equipment_input\<lparr>p_purchasePrice := Some 50000\<rparr>) getDefaultConfig)"

definition repriced_again :: hospital_asset where
  "repriced_again =
     HospitalAsset_new ''generated''
       (new_equipment_input\<lparr>p_customFields := Some [(''purchasePrice'', JNum 42000)],
          p_criticalLevel := Some ''routine'', p_reorderPoint := Some 10,
          p_purchasePrice := Some 50000\<rparr>) getDefaultConfig"

text \<open>A construction input with a zero price and empty location and condition.\<close>

definition falsy_input :: hospital_asset_input where
  "falsy_input =
     new_equipment_input\<lparr>p_location := Some [], p_condition := Some [], p_purchasePrice := Some 0\<rparr>"

text \<open>The two assets of the sorting tests of the store, and the store over them.\<close>

definition zebra :: hospital_asset where
  "zebra =
     HospitalAsset_new ''generated''
       (new_equipment_input\<lparr>p_name := Some ''Zebra Equipment'',
          p_serialNumber := Some ''ZE-123456''\<rparr>)
       getDefaultConfig"

definition alpha :: hospital_asset where
  "alpha =
     HospitalAsset_new ''generated''
       (new_equipment_input\<lparr>p_id := Some ''2'', p_name := Some ''Alpha Equipment'',
          p_manufacturer := Some ''Global'', p_category := Some ''Surgical'',
          p_quantity := Some 5, p_serialNumber := Some ''AE-123456''\<rparr>)
       getDefaultConfig"

definition sorting_world :: world where
  "sorting_world = (initial_world (\<lambda>r. if r = 0 then zebra else alpha))\<lparr>arrays := [[0, 1]]\<rparr>"

text \<open>
  The asset of \<^verbatim>\<open>HospitalAsset.test.ts\<close>; the two dates are
  \<^verbatim>\<open>new Date('2025-12-31')\<close> and \<^verbatim>\<open>new Date('2024-01-01')\<close>.
\<close>

definition icu_ventilator :: hospital_asset where
  "icu_ventilator =
     HospitalAsset_new ''generated''
       \<lparr> p_id = None, p_name = Some ''Ventilator'', p_manufacturer = Some ''MedTech'',
         p_category = Some ''Life Support'', p_quantity = Some 5,
         p_serialNumber = Some ''LS-123456'', p_criticalLevel = Some ''critical'',
         p_lastMaintenance = None, p_expiryDate = None, p_reorderPoint = Some 10,
         p_customFields =
           Some [(''maintenanceNotes'', JStr ''Regular cleaning required''),
                 (''vendorContact'', JStr ''+1-555-0123'')],
         p_location = Some ''ICU'', p_condition = Some ''Good'',
         p_purchasePrice = Some 50000,
         p_warrantyExpiry = Some (DateObj 1767139200000),
         p_lastCalibration = Some (DateObj 1704067200000) \<rparr>
       getDefaultConfig"

section \<open>Properties\<close>

subsection \<open>Stock predicates\<close>

text \<open>
  Claim C1 says that \<^verbatim>\<open>isLowStock()\<close> and \<^verbatim>\<open>isCritical()\<close> are never both true.
  The first asset of the statistics tests is a counterexample: its quantity 2 lies
  strictly between 0.9 and its reorder point 3, and its level is \<^verbatim>\<open>critical\<close>, so
  both hold (the tests expect it in both counts).
\<close>

theorem low_stock_and_critical_counterexample: "isLowStock asset1 \<and> isCritical asset1"
  by (simp add: asset1_def HospitalAsset_new_def initialize_def isLowStock_def isCritical_def)

text \<open>
  Claim C1, amended: for every asset whose \<^verbatim>\<open>criticalLevel\<close> is not \<^verbatim>\<open>critical\<close>,
  \<^verbatim>\<open>isLowStock()\<close> and \<^verbatim>\<open>isCritical()\<close> are never both true.
\<close>

theorem low_stock_critical_exclusive:
  "criticalLevel (data m) \<noteq> ''critical'' \<Longrightarrow> \<not> (isLowStock m \<and> isCritical m)"
  by (simp add: isLowStock_def isCritical_def)

theorem low_stock_critical_exclusive_witness:
  "criticalLevel (data asset2) \<noteq> ''critical'' \<and> \<not> (isLowStock asset2 \<and> isCritical asset2)"
proof -
  have h: "criticalLevel (data asset2) \<noteq> ''critical''"
    by (simp add: asset2_def HospitalAsset_new_def initialize_def)
  from low_stock_critical_exclusive [OF h] h show ?thesis by simp
qed


subsection \<open>Validation\<close>

lemma addError_nonempty: "errors (addError f msg m) \<noteq> []"
  by (cases "errors m") (simp_all add: addError_def Let_def)

lemma check_field_keeps: "errors m \<noteq> [] \<Longrightarrow> errors (check_field fc m) \<noteq> []"
  by (simp add: check_field_def Let_def addError_nonempty)

lemma check_required_keeps:
  "errors m \<noteq> [] \<Longrightarrow> errors (check_required fs m) \<noteq> []"
  by (induction fs arbitrary: m) (simp_all add: check_field_keeps)

lemma Asset_validate_iff: "fst (Asset_validate m) = (\<not> hasErrors (snd (Asset_validate m)))"
  by (simp add: Asset_validate_def Let_def)

lemma HospitalAsset_validate_iff:
  "fst (HospitalAsset_validate h) = (\<not> hasErrors (snd (HospitalAsset_validate h)))"
proof -
  obtain b m1 where v: "Asset_validate h = (b, m1)" by (cases "Asset_validate h")
  have b: "b = (\<not> hasErrors m1)" using Asset_validate_iff [of h] v by simp
  have "hasErrors m1 \<Longrightarrow> hasErrors (check_required (config_fields (hospitalConfig m1)) m1)"
    using check_required_keeps [of m1] by (simp add: hasErrors_def)
  then show ?thesis
    using v b by (auto simp add: HospitalAsset_validate_def Let_def)
qed

lemma Asset_validate_in_range:
  assumes "trim (name (data m)) \<noteq> []" and "length (name (data m)) \<le> 100"
    and "isInteger (quantity (data m))" and "0 \<le> quantity (data m)"
    and "quantity (data m) \<le> 999999" and "matches_serial (serialNumber (data m))"
    and "0 \<le> reorderPoint (data m)"
  shows "Asset_validate m = (True, clearErrors m)"
proof -
  have s: "serialNumber (data m) \<noteq> []" using assms(6) by (auto simp add: matches_serial_def)
  show ?thesis
    using assms s
    by (simp add: Asset_validate_def Let_def check_name_def check_quantity_def
        check_serialNumber_def check_reorderPoint_def hasErrors_def clearErrors_def)
qed

lemma ventilator_in_range:
  "trim (name (data ventilator)) \<noteq> [] \<and> length (name (data ventilator)) \<le> 100
   \<and> isInteger (quantity (data ventilator)) \<and> 0 \<le> quantity (data ventilator)
   \<and> quantity (data ventilator) \<le> 999999
   \<and> matches_serial (serialNumber (data ventilator)) \<and> 0 \<le> reorderPoint (data ventilator)"
  by (simp add: ventilator_def Asset_new_def initialize_def trim_def is_space_def code_unit_def matches_serial_def is_upper_def
      is_digit_def isInteger_def)

lemma check_required_none_missing:
  "\<forall>fc\<in>set fs. required fc \<longrightarrow> \<not> is_missing (field_value m (key fc))
   \<Longrightarrow> check_required fs m = m"
  by (induction fs) (simp_all add: check_field_def)

lemma field_value_clearErrors: "field_value (clearErrors m) k = field_value m k"
  by (simp add: field_value_def clearErrors_def getCustomField_def split: option.splits)

lemma HospitalAsset_validate_in_range:
  assumes "trim (name (data m)) \<noteq> []" and "length (name (data m)) \<le> 100"
    and "isInteger (quantity (data m))" and "0 \<le> quantity (data m)"
    and "quantity (data m) \<le> 999999" and "matches_serial (serialNumber (data m))"
    and "0 \<le> reorderPoint (data m)"
    and "\<forall>fc\<in>set (config_fields (hospitalConfig m)).
           required fc \<longrightarrow> \<not> is_missing (field_value m (key fc))"
  shows "HospitalAsset_validate m = (True, clearErrors m)"
proof -
  have v: "Asset_validate m = (True, clearErrors m)"
    using assms(1-7) by (rule Asset_validate_in_range)
  have c: "hospitalConfig (clearErrors m) = hospitalConfig m"
    by (simp add: clearErrors_def)
  have "check_required (config_fields (hospitalConfig m)) (clearErrors m) = clearErrors m"
    using assms(8) by (intro check_required_none_missing) (simp add: field_value_clearErrors)
  then show ?thesis
    by (simp add: HospitalAsset_validate_def v c) (simp add: hasErrors_def clearErrors_def)
qed

lemma new_equipment_in_range:
  "trim (name (data new_equipment)) \<noteq> [] \<and> length (name (data new_equipment)) \<le> 100
   \<and> isInteger (quantity (data new_equipment)) \<and> 0 \<le> quantity (data new_equipment)
   \<and> quantity (data new_equipment) \<le> 999999
   \<and> matches_serial (serialNumber (data new_equipment))
   \<and> 0 \<le> reorderPoint (data new_equipment)"
  by (simp add: new_equipment_def new_equipment_input_def HospitalAsset_new_def initialize_def
      trim_def is_space_def code_unit_def matches_serial_def is_upper_def
      is_digit_def isInteger_def)

lemma new_equipment_none_missing:
  "\<forall>fc\<in>set (config_fields (hospitalConfig new_equipment)).
     required fc \<longrightarrow> \<not> is_missing (field_value new_equipment (key fc))"
  by (simp add: new_equipment_def new_equipment_input_def getDefaultConfig_def
      HospitalAsset_new_def initialize_def field_value_def data_member_def is_missing_def)

text \<open>
  Claim C3: for every asset whose name is not empty after trimming and has at most 100
  characters, whose quantity is a whole number from 0 to 999999, whose serial number
  matches \<^verbatim>\<open>^[A-Z]{2}-\d{6}$\<close> and whose reorder point is not negative,
  \<^verbatim>\<open>Asset.validate()\<close> returns true and \<^verbatim>\<open>hasErrors()\<close> is false afterwards;
  the same holds for \<^verbatim>\<open>HospitalAsset.validate()\<close>, which also checks the fields
  that the configuration requires, when none of those is missing. And for every asset
  \<^verbatim>\<open>validate()\<close> returns true if and only if the call recorded no error, for
  \<^verbatim>\<open>Asset\<close> and for \<^verbatim>\<open>HospitalAsset\<close> (the errors are cleared when the call
  starts, so those it leaves are those it recorded).
\<close>

theorem validate_accepts_documented_ranges:
  "(trim (name (data m)) \<noteq> [] \<and> length (name (data m)) \<le> 100
      \<and> isInteger (quantity (data m)) \<and> 0 \<le> quantity (data m) \<and> quantity (data m) \<le> 999999
      \<and> matches_serial (serialNumber (data m)) \<and> 0 \<le> reorderPoint (data m)
    \<longrightarrow> fst (Asset_validate m) \<and> \<not> hasErrors (snd (Asset_validate m)))
   \<and> (trim (name (data h)) \<noteq> [] \<and> length (name (data h)) \<le> 100
      \<and> isInteger (quantity (data h)) \<and> 0 \<le> quantity (data h) \<and> quantity (data h) \<le> 999999
      \<and> matches_serial (serialNumber (data h)) \<and> 0 \<le> reorderPoint (data h)
      \<and> (\<forall>fc\<in>set (config_fields (hospitalConfig h)).
            required fc \<longrightarrow> \<not> is_missing (field_value h (key fc)))
    \<longrightarrow> fst (HospitalAsset_validate h) \<and> \<not> hasErrors (snd (HospitalAsset_validate h)))
   \<and> fst (Asset_validate m) = (\<not> hasErrors (snd (Asset_validate m)))
   \<and> fst (HospitalAsset_validate h) = (\<not> hasErrors (snd (HospitalAsset_validate h)))"
  using Asset_validate_in_range [of m] HospitalAsset_validate_in_range [of h]
    Asset_validate_iff [of m] HospitalAsset_validate_iff [of h]
  by (auto simp add: hasErrors_def clearErrors_def)

theorem validate_accepts_documented_ranges_witness:
  "trim (name (data ventilator)) \<noteq> [] \<and> length (name (data ventilator)) \<le> 100
   \<and> isInteger (quantity (data ventilator)) \<and> 0 \<le> quantity (data ventilator)
   \<and> quantity (data ventilator) \<le> 999999
   \<and> matches_serial (serialNumber (data ventilator)) \<and> 0 \<le> reorderPoint (data ventilator)
   \<and> fst (Asset_validate ventilator) \<and> \<not> hasErrors (snd (Asset_validate ventilator))
   \<and> trim (name (data new_equipment)) \<noteq> [] \<and> length (name (data new_equipment)) \<le> 100
   \<and> isInteger (quantity (data new_equipment)) \<and> 0 \<le> quantity (data new_equipment)
   \<and> quantity (data new_equipment) \<le> 999999
   \<and> matches_serial (serialNumber (data new_equipment))
   \<and> 0 \<le> reorderPoint (data new_equipment)
   \<and> list_all (\<lambda>fc. \<not> (required fc \<and> is_missing (field_value new_equipment (key fc))))
        (config_fields (hospitalConfig new_equipment))
   \<and> fst (HospitalAsset_validate new_equipment)
   \<and> \<not> hasErrors (snd (HospitalAsset_validate new_equipment))"
proof -
  have n: "list_all (\<lambda>fc. \<not> (required fc \<and> is_missing (field_value new_equipment (key fc))))
        (config_fields (hospitalConfig new_equipment))"
    using new_equipment_none_missing by (simp add: list_all_iff)
  show ?thesis
    using validate_accepts_documented_ranges [of ventilator new_equipment]
      ventilator_in_range new_equipment_in_range new_equipment_none_missing n
    by blast
qed

subsection \<open>Saving\<close>

lemma set_fromEntries: "set (fromEntries m) = set m"
  by (auto simp add: fromEntries_def)

lemma fromEntries_present:
  "first_messages_present (fromEntries m) = first_messages_present m"
  by (simp add: first_messages_present_def list_all_iff set_fromEntries)

lemma fromEntries_empty: "(fromEntries m = []) = (m = [])"
  using set_fromEntries [of m] by (metis set_empty)

lemma addError_present:
  assumes "first_messages_present (errors m)" and "msg \<noteq> []"
  shows "first_messages_present (errors (addError f msg m))"
proof -
  let ?es = "if map_of (errors m) f = None then errors m @ [(f, [])] else errors m"
  have pre: "list_all (\<lambda>e. (snd e \<noteq> [] \<and> hd (snd e) \<noteq> []) \<or> (fst e = f \<and> snd e = [])) ?es"
    using assms(1) by (auto simp add: first_messages_present_def list_all_iff)
  have step: "list_all (\<lambda>e. snd e \<noteq> [] \<and> hd (snd e) \<noteq> [])
          (map (\<lambda>(k, msgs). if k = f then (k, msgs @ [msg]) else (k, msgs)) es)"
    if "list_all (\<lambda>e. (snd e \<noteq> [] \<and> hd (snd e) \<noteq> []) \<or> (fst e = f \<and> snd e = [])) es" for es
    using that assms(2) by (induction es) (auto simp add: hd_append split: if_splits)
  have "errors (addError f msg m)
          = map (\<lambda>(k, msgs). if k = f then (k, msgs @ [msg]) else (k, msgs)) ?es"
    by (simp add: addError_def Let_def)
  then show ?thesis
    using step [OF pre] by (simp add: first_messages_present_def)
qed

lemma Asset_validate_present: "first_messages_present (errors (snd (Asset_validate m)))"
proof -
  have 0: "first_messages_present (errors (clearErrors m))"
    by (simp add: clearErrors_def first_messages_present_def)
  have 1: "first_messages_present (errors (check_name x))" if "first_messages_present (errors x)" for x :: "('a asset_data_scheme, 'b) model_scheme"
    using that by (simp add: check_name_def addError_present)
  have 2: "first_messages_present (errors (check_quantity x))" if "first_messages_present (errors x)" for x :: "('a asset_data_scheme, 'b) model_scheme"
    using that by (simp add: check_quantity_def addError_present)
  have 3: "first_messages_present (errors (check_serialNumber x))" if "first_messages_present (errors x)" for x :: "('a asset_data_scheme, 'b) model_scheme"
    using that by (simp add: check_serialNumber_def addError_present)
  have 4: "first_messages_present (errors (check_reorderPoint x))" if "first_messages_present (errors x)" for x :: "('a asset_data_scheme, 'b) model_scheme"
    using that by (simp add: check_reorderPoint_def addError_present)
  show ?thesis
    by (simp add: Asset_validate_def Let_def 0 1 2 3 4)
qed

lemma check_field_present:
  "first_messages_present (errors m) \<Longrightarrow> first_messages_present (errors (check_field fc m))"
  by (simp add: check_field_def Let_def addError_present)

lemma check_required_present:
  "first_messages_present (errors m) \<Longrightarrow> first_messages_present (errors (check_required fs m))"
  by (induction fs arbitrary: m) (simp_all add: check_field_present)

lemma HospitalAsset_validate_present:
  "first_messages_present (errors (snd (HospitalAsset_validate m)))"
  using Asset_validate_present [of m]
  by (simp add: HospitalAsset_validate_def Let_def split_beta check_required_present)

lemma firstError_first:
  assumes "first_messages_present es" and "es \<noteq> []"
  shows "\<exists>field msg msgs rest. es = (field, msg # msgs) # rest \<and> firstError es = msg"
proof -
  obtain field ms rest where es: "es = (field, ms) # rest"
    using assms(2) by (cases es) auto
  with assms(1) obtain msg msgs where ms: "ms = msg # msgs" and "msg \<noteq> []"
    by (cases ms) (auto simp add: first_messages_present_def)
  then show ?thesis using es by (simp add: firstError_def)
qed

lemma addError_only_errors: "\<exists>E. addError f msg m = m\<lparr>errors := E\<rparr>"
  by (simp add: addError_def Let_def) blast

lemma same_only_errors: "\<exists>E. m = m\<lparr>errors := E\<rparr>"
proof
  show "m = m\<lparr>errors := errors m\<rparr>" by simp
qed

lemma check_field_only_errors: "\<exists>E. check_field fc m = m\<lparr>errors := E\<rparr>"
  using addError_only_errors [where m = m] same_only_errors [where m = m]
  by (simp add: check_field_def Let_def)

lemma check_required_only_errors: "\<exists>E. check_required fs m = m\<lparr>errors := E\<rparr>"
proof (induction fs arbitrary: m)
  case Nil
  show ?case using same_only_errors [of m] by simp
next
  case (Cons fc fs)
  obtain E where E: "check_field fc m = m\<lparr>errors := E\<rparr>"
    using check_field_only_errors by blast
  obtain E' where "check_required fs (check_field fc m) = (check_field fc m)\<lparr>errors := E'\<rparr>"
    using Cons.IH by blast
  then have "check_required (fc # fs) m = m\<lparr>errors := E'\<rparr>"
    using E by simp
  then show ?case by blast
qed

lemma Asset_validate_only_errors: "\<exists>E. snd (Asset_validate m) = m\<lparr>errors := E\<rparr>"
proof -
  have c: "\<exists>E. f x = m\<lparr>errors := E\<rparr>"
    if h1: "\<exists>E. x = m\<lparr>errors := E\<rparr>" and h2: "\<And>y. \<exists>E. f y = y\<lparr>errors := E\<rparr>"
    for x and f :: "('a asset_data_scheme, 'b) model_scheme \<Rightarrow> ('a asset_data_scheme, 'b) model_scheme"
  proof -
    obtain E where "x = m\<lparr>errors := E\<rparr>" using h1 by blast
    moreover obtain E' where "f x = x\<lparr>errors := E'\<rparr>" using h2 by blast
    ultimately have "f x = m\<lparr>errors := E'\<rparr>" by simp
    then show ?thesis by blast
  qed
  have 0: "\<exists>E. clearErrors m = m\<lparr>errors := E\<rparr>" by (simp add: clearErrors_def) blast
  have 1: "\<exists>E. check_name y = y\<lparr>errors := E\<rparr>" for y :: "('a asset_data_scheme, 'b) model_scheme"
    using addError_only_errors [where m = y] same_only_errors [where m = y] by (simp add: check_name_def)
  have 2: "\<exists>E. check_quantity y = y\<lparr>errors := E\<rparr>" for y :: "('a asset_data_scheme, 'b) model_scheme"
    using addError_only_errors [where m = y] same_only_errors [where m = y] by (simp add: check_quantity_def)
  have 3: "\<exists>E. check_serialNumber y = y\<lparr>errors := E\<rparr>" for y :: "('a asset_data_scheme, 'b) model_scheme"
    using addError_only_errors [where m = y] same_only_errors [where m = y] by (simp add: check_serialNumber_def)
  have 4: "\<exists>E. check_reorderPoint y = y\<lparr>errors := E\<rparr>" for y :: "('a asset_data_scheme, 'b) model_scheme"
    using addError_only_errors [where m = y] same_only_errors [where m = y] by (simp add: check_reorderPoint_def)
  show ?thesis
    unfolding Asset_validate_def Let_def snd_conv
    by (intro c [where f = check_reorderPoint] c [where f = check_serialNumber]
        c [where f = check_quantity] c [where f = check_name] 0 1 2 3 4)
qed

lemma HospitalAsset_validate_only_errors:
  "\<exists>E. snd (HospitalAsset_validate m) = m\<lparr>errors := E\<rparr>"
proof -
  obtain E where E: "snd (Asset_validate m) = m\<lparr>errors := E\<rparr>"
    using Asset_validate_only_errors by blast
  obtain E' where "check_required (config_fields (hospitalConfig (snd (Asset_validate m)))) (snd (Asset_validate m))
      = (snd (Asset_validate m))\<lparr>errors := E'\<rparr>"
    using check_required_only_errors by blast
  then have "snd (HospitalAsset_validate m) = m\<lparr>errors := E'\<rparr>"
    using E by (simp add: HospitalAsset_validate_def Let_def split_beta)
  then show ?thesis by blast
qed

lemma Asset_validate_ignores_errors: "Asset_validate (m\<lparr>errors := E\<rparr>) = Asset_validate m"
  by (simp add: Asset_validate_def clearErrors_def)

lemma HospitalAsset_validate_ignores_errors:
  "HospitalAsset_validate (m\<lparr>errors := E\<rparr>) = HospitalAsset_validate m"
  by (simp add: HospitalAsset_validate_def Asset_validate_ignores_errors)

lemma HospitalAsset_validate_again:
  "HospitalAsset_validate (snd (HospitalAsset_validate m)) = HospitalAsset_validate m"
  using HospitalAsset_validate_only_errors [where m = m]
    HospitalAsset_validate_ignores_errors [where m = m]
  by auto

lemma map_of_map_set: "map_of (map_set k v m) k = Some v"
  by (induction m) auto

lemma saveToLocalStorage_frame:
  "storage (saveToLocalStorage w) = storage w \<and> objects (saveToLocalStorage w) = objects w
   \<and> arrays (saveToLocalStorage w) = arrays w \<and> assets (saveToLocalStorage w) = assets w
   \<and> saveCalls (saveToLocalStorage w) = saveCalls w \<and> error (saveToLocalStorage w) = error w
   \<and> loading (saveToLocalStorage w) = loading w"
  by (simp add: saveToLocalStorage_def split: sum.splits)

lemma save_invalid:
  assumes "\<not> fst (HospitalAsset_validate (objects w r))"
  shows "save r w =
     (Inl (JsError (''Model validation failed: ''
                     @ firstError (getErrors (snd (HospitalAsset_validate (objects w r)))))),
      w\<lparr>saveCalls := saveCalls w @ [r],
        objects := (objects w)(r := snd (HospitalAsset_validate (objects w r)))\<rparr>)"
  using assms by (simp add: save_def beforeSave_def Let_def split_beta)

lemma save_valid:
  assumes "fst (HospitalAsset_validate (objects w r))"
  shows "save r w =
     (Inr (),
      saveToLocalStorage
        (afterSave r
           (w\<lparr>saveCalls := saveCalls w @ [r],
              objects := (objects w)(r := snd (HospitalAsset_validate (objects w r))),
              storage := map_set (asset_id (data (objects w r))) r (storage w)\<rparr>)))"
proof -
  obtain E where "snd (HospitalAsset_validate (objects w r)) = (objects w r)\<lparr>errors := E\<rparr>"
    using HospitalAsset_validate_only_errors by blast
  then have "asset_id (data (snd (HospitalAsset_validate (objects w r)))) = asset_id (data (objects w r))"
    by simp
  then show ?thesis
    using assms by (simp add: save_def beforeSave_def Let_def split_beta)
qed

lemma invalid_first_message:
  assumes "\<not> fst (HospitalAsset_validate m)"
  shows "\<exists>field msg msgs rest.
           getErrors (snd (HospitalAsset_validate m)) = (field, msg # msgs) # rest
           \<and> firstError (getErrors (snd (HospitalAsset_validate m))) = msg"
proof -
  have "errors (snd (HospitalAsset_validate m)) \<noteq> []"
    using assms HospitalAsset_validate_iff [of m] by (simp add: hasErrors_def)
  then have "getErrors (snd (HospitalAsset_validate m)) \<noteq> []"
    by (simp add: getErrors_def fromEntries_empty)
  moreover have "first_messages_present (getErrors (snd (HospitalAsset_validate m)))"
    by (simp add: getErrors_def fromEntries_present HospitalAsset_validate_present)
  ultimately show ?thesis by (rule firstError_first [rotated])
qed

text \<open>
  Claim C4: \<^verbatim>\<open>save(entity)\<close> fails with the validation error that carries the
  first message of the first field of \<^verbatim>\<open>getErrors()\<close> if and only if
  \<^verbatim>\<open>entity.validate()\<close> returns false; on that failure the collection keyed by id
  (and the stored snapshot) is unchanged; on success the entity is stored under its id,
  replacing an entry with that id or else added last, and it is clean.
\<close>

theorem save_validates_first:
  "(\<not> fst (HospitalAsset_validate (objects w r)))
     = (\<exists>field msg msgs rest.
          getErrors (objects (snd (save r w)) r) = (field, msg # msgs) # rest
          \<and> fst (save r w) = Inl (JsError (''Model validation failed: '' @ msg)))
   \<and> (\<not> fst (HospitalAsset_validate (objects w r))
      \<longrightarrow> storage (snd (save r w)) = storage w
          \<and> localStorage (snd (save r w)) = localStorage w)
   \<and> (fst (HospitalAsset_validate (objects w r))
      \<longrightarrow> fst (save r w) = Inr ()
          \<and> storage (snd (save r w)) = map_set (asset_id (data (objects w r))) r (storage w)
          \<and> findById (asset_id (data (objects w r))) (snd (save r w)) = Some r
          \<and> \<not> isDirty (objects (snd (save r w)) r))"
proof (cases "fst (HospitalAsset_validate (objects w r))")
  case True
  from save_valid [OF True] show ?thesis
    using True
    by (simp add: saveToLocalStorage_frame findById_def map_of_map_set afterSave_def
        markAsClean_def)
next
  case False
  from invalid_first_message [OF False] obtain field msg msgs rest where
    "getErrors (snd (HospitalAsset_validate (objects w r))) = (field, msg # msgs) # rest"
    "firstError (getErrors (snd (HospitalAsset_validate (objects w r)))) = msg"
    by blast
  then show ?thesis
    using False save_invalid [OF False] by simp
qed

lemma not_array_index: "k \<noteq> [] \<Longrightarrow> \<not> is_digit (hd k) \<Longrightarrow> \<not> is_array_index k"
  by (cases k) (auto simp add: is_array_index_def)

lemma bad_serial_errors:
  "errors (snd (HospitalAsset_validate bad_serial))
     = [(''serialNumber'', [''Invalid serial number format (should be XX-000000)''])]"
  by (simp add: bad_serial_def new_equipment_def new_equipment_input_def getDefaultConfig_def
      HospitalAsset_new_def initialize_def Asset_validate_def clearErrors_def check_name_def check_quantity_def
      check_serialNumber_def check_reorderPoint_def hasErrors_def addError_def
      HospitalAsset_validate_def check_field_def field_value_def data_member_def
      is_missing_def getCustomField_def
      trim_def is_space_def code_unit_def matches_serial_def is_upper_def
      is_digit_def isInteger_def inherited_keys_def)

lemma bad_serial_getErrors:
  "getErrors (snd (HospitalAsset_validate bad_serial))
     = [(''serialNumber'', [''Invalid serial number format (should be XX-000000)''])]"
  unfolding getErrors_def bad_serial_errors
  by (simp add: fromEntries_def not_array_index is_digit_def code_unit_def)

lemma creation_valid: "fst (HospitalAsset_validate new_equipment)"
  by (simp add: bad_serial_def new_equipment_def new_equipment_input_def getDefaultConfig_def
      HospitalAsset_new_def initialize_def Asset_validate_def clearErrors_def check_name_def check_quantity_def
      check_serialNumber_def check_reorderPoint_def hasErrors_def addError_def
      HospitalAsset_validate_def check_field_def field_value_def data_member_def
      is_missing_def getCustomField_def
      trim_def is_space_def code_unit_def matches_serial_def is_upper_def
      is_digit_def isInteger_def inherited_keys_def)

lemma creation_invalid: "\<not> fst (HospitalAsset_validate bad_serial)"
  by (simp add: bad_serial_def new_equipment_def new_equipment_input_def getDefaultConfig_def
      HospitalAsset_new_def initialize_def Asset_validate_def clearErrors_def check_name_def check_quantity_def
      check_serialNumber_def check_reorderPoint_def hasErrors_def addError_def
      HospitalAsset_validate_def check_field_def field_value_def data_member_def
      is_missing_def getCustomField_def
      trim_def is_space_def code_unit_def matches_serial_def is_upper_def
      is_digit_def isInteger_def inherited_keys_def)

theorem save_validates_first_witness:
  "\<not> fst (HospitalAsset_validate (objects creation_world 1))
   \<and> fst (save 1 creation_world)
       = Inl (JsError ''Model validation failed: Invalid serial number format (should be XX-000000)'')
   \<and> storage (snd (save 1 creation_world)) = storage creation_world
   \<and> localStorage (snd (save 1 creation_world)) = localStorage creation_world
   \<and> fst (HospitalAsset_validate (objects creation_world 0))
   \<and> fst (save 0 creation_world) = Inr ()
   \<and> findById ''1'' (snd (save 0 creation_world)) = Some 0
   \<and> \<not> isDirty (objects (snd (save 0 creation_world)) 0)"
proof -
  have o: "objects creation_world 1 = bad_serial"
    by (simp add: creation_world_def initial_world_def)
  have b: "\<not> fst (HospitalAsset_validate (objects creation_world 1))"
    using creation_invalid o by simp
  have g: "fst (HospitalAsset_validate (objects creation_world 0))"
    using creation_valid by (simp add: creation_world_def initial_world_def)
  have i: "asset_id (data (objects creation_world 0)) = ''1''"
    by (simp add: creation_world_def initial_world_def new_equipment_def
        new_equipment_input_def HospitalAsset_new_def initialize_def)
  have e: "getErrors (objects (snd (save 1 creation_world)) 1)
      = [(''serialNumber'', [''Invalid serial number format (should be XX-000000)''])]"
    unfolding save_invalid [OF b] o by (simp add: bad_serial_getErrors)
  from save_validates_first [of creation_world 1] b
  have 1: "(\<exists>field msg msgs rest.
          getErrors (objects (snd (save 1 creation_world)) 1) = (field, msg # msgs) # rest
          \<and> fst (save 1 creation_world) = Inl (JsError (''Model validation failed: '' @ msg)))
      \<and> storage (snd (save 1 creation_world)) = storage creation_world
      \<and> localStorage (snd (save 1 creation_world)) = localStorage creation_world"
    by blast
  then have m: "fst (save 1 creation_world)
      = Inl (JsError ''Model validation failed: Invalid serial number format (should be XX-000000)'')"
    unfolding e by auto
  from save_validates_first [of creation_world 0] g
  have 0: "fst (save 0 creation_world) = Inr ()
      \<and> findById (asset_id (data (objects creation_world 0))) (snd (save 0 creation_world)) = Some 0
      \<and> \<not> isDirty (objects (snd (save 0 creation_world)) 0)"
    by blast
  show ?thesis using b g 1 0 m unfolding i by blast
qed

subsection \<open>Creating an asset\<close>

lemma createAsset_invalid:
  assumes "\<not> fst (HospitalAsset_validate (objects w asset))"
  shows "createAsset asset w =
     w\<lparr>objects := (objects w)(asset := snd (HospitalAsset_validate (objects w asset))),
       error := Some (composed_message (getErrors (snd (HospitalAsset_validate (objects w asset))))),
       loading := False\<rparr>"
  using assms by (simp add: createAsset_def Let_def split_beta)

lemma createAsset_valid:
  assumes "fst (HospitalAsset_validate (objects w asset))"
  shows "createAsset asset w =
     (let w2 = w\<lparr>loading := True, error := None,
                 objects := (objects w)(asset := snd (HospitalAsset_validate (objects w asset)))\<rparr>;
          w' = snd (save asset w2)
      in (array_push asset (assets w') w')\<lparr>loading := False\<rparr>)"
proof -
  let ?w2 = "w\<lparr>loading := True, error := None,
                 objects := (objects w)(asset := snd (HospitalAsset_validate (objects w asset)))\<rparr>"
  have "fst (HospitalAsset_validate (objects ?w2 asset))"
    using assms by (simp add: HospitalAsset_validate_again)
  from save_valid [OF this] have "fst (save asset ?w2) = Inr ()" by simp
  then show ?thesis
    using assms by (simp add: createAsset_def Let_def split_beta split: sum.splits)
qed

text \<open>
  Claim C5: when \<^verbatim>\<open>validate()\<close> returns false for the entity, \<^verbatim>\<open>createAsset\<close>
  leaves the working set as it is (the same array with the same elements, each object
  as before but for the errors that the validation recorded), does not call
  \<^verbatim>\<open>save\<close> of the repository, whose state stays as it is, and sets \<^verbatim>\<open>error\<close> to
  the message composed from the errors of the entity; when \<^verbatim>\<open>validate()\<close> returns
  true, it appends the entity to the working set, after one call of \<^verbatim>\<open>save\<close>.
\<close>

theorem createAsset_validates_first:
  "(\<not> fst (HospitalAsset_validate (objects w asset))
      \<longrightarrow> assets (createAsset asset w) = assets w
          \<and> arrays (createAsset asset w) = arrays w
          \<and> read_array (createAsset asset w) (assets w) = read_array w (assets w)
          \<and> (\<forall>r. (objects (createAsset asset w) r)\<lparr>errors := []\<rparr> = (objects w r)\<lparr>errors := []\<rparr>)
          \<and> saveCalls (createAsset asset w) = saveCalls w
          \<and> storage (createAsset asset w) = storage w
          \<and> localStorage (createAsset asset w) = localStorage w
          \<and> error (createAsset asset w)
              = Some (composed_message (getErrors (objects (createAsset asset w) asset)))
          \<and> error (createAsset asset w) \<noteq> None)
   \<and> (fst (HospitalAsset_validate (objects w asset)) \<and> assets w < length (arrays w)
      \<longrightarrow> assets (createAsset asset w) = assets w
          \<and> read_array (createAsset asset w) (assets w) = read_array w (assets w) @ [asset]
          \<and> saveCalls (createAsset asset w) = saveCalls w @ [asset]
          \<and> error (createAsset asset w) = None)"
proof (cases "fst (HospitalAsset_validate (objects w asset))")
  case False
  obtain E where "snd (HospitalAsset_validate (objects w asset)) = (objects w asset)\<lparr>errors := E\<rparr>"
    using HospitalAsset_validate_only_errors by blast
  then show ?thesis
    using False by (simp add: createAsset_invalid [OF False] read_array_def)
next
  case True
  let ?w2 = "w\<lparr>loading := True, error := None,
                 objects := (objects w)(asset := snd (HospitalAsset_validate (objects w asset)))\<rparr>"
  have v: "fst (HospitalAsset_validate (objects ?w2 asset))"
    using True by (simp add: HospitalAsset_validate_again)
  show ?thesis
    using True
    by (simp add: createAsset_valid [OF True] save_valid [OF v] Let_def array_push_def
        read_array_def saveToLocalStorage_frame afterSave_def)
qed

theorem createAsset_validates_first_witness:
  "\<not> fst (HospitalAsset_validate (objects creation_world 1))
   \<and> read_array (createAsset 1 creation_world) (assets creation_world) = []
   \<and> saveCalls (createAsset 1 creation_world) = []
   \<and> error (createAsset 1 creation_world)
       = Some ''Validation failed: serialNumber: Invalid serial number format (should be XX-000000)''
   \<and> fst (HospitalAsset_validate (objects creation_world 0))
   \<and> assets creation_world < length (arrays creation_world)
   \<and> read_array (createAsset 0 creation_world) (assets creation_world) = [0]"
proof -
  have o: "objects creation_world 1 = bad_serial"
    by (simp add: creation_world_def initial_world_def)
  have b: "\<not> fst (HospitalAsset_validate (objects creation_world 1))"
    using creation_invalid o by simp
  have g: "fst (HospitalAsset_validate (objects creation_world 0))"
    using creation_valid by (simp add: creation_world_def initial_world_def)
  have a: "assets creation_world < length (arrays creation_world)"
    and r: "read_array creation_world (assets creation_world) = []"
    and c: "saveCalls creation_world = []"
    by (simp_all add: creation_world_def initial_world_def read_array_def)
  have e: "composed_message (getErrors (objects (createAsset 1 creation_world) 1))
      = ''Validation failed: serialNumber: Invalid serial number format (should be XX-000000)''"
    unfolding createAsset_invalid [OF b] o by (simp add: bad_serial_getErrors composed_message_def)
  from createAsset_validates_first [of creation_world 1] b
  have 1: "read_array (createAsset 1 creation_world) (assets creation_world)
        = read_array creation_world (assets creation_world)
      \<and> saveCalls (createAsset 1 creation_world) = saveCalls creation_world
      \<and> error (createAsset 1 creation_world)
          = Some (composed_message (getErrors (objects (createAsset 1 creation_world) 1)))"
    by blast
  from createAsset_validates_first [of creation_world 0] g a
  have 0: "read_array (createAsset 0 creation_world) (assets creation_world)
        = read_array creation_world (assets creation_world) @ [0]"
    by blast
  show ?thesis using b g a 1 0 unfolding r c e by simp
qed

subsection \<open>The filtered view\<close>

lemma mset_insert_by: "mset (insert_by cmp x ys) = add_mset x (mset ys)"
  by (induction ys) simp_all

lemma mset_sort_by: "mset (sort_by cmp xs) = mset xs"
  by (induction xs) (simp_all add: sort_by_def mset_insert_by)

lemma set_insert_by: "set (insert_by cmp x ys) = insert x (set ys)"
  using mset_insert_by [of cmp x ys] by (metis set_mset_add_mset_insert set_mset_mset)

lemma sorted_insert_by:
  assumes total: "\<And>a b. cmp a b \<le> 0 \<or> cmp b a \<le> 0"
    and trans: "\<And>a b c. cmp a b \<le> 0 \<Longrightarrow> cmp b c \<le> 0 \<Longrightarrow> cmp a c \<le> 0"
    and "sorted_wrt (\<lambda>a b. cmp a b \<le> 0) ys"
  shows "sorted_wrt (\<lambda>a b. cmp a b \<le> 0) (insert_by cmp x ys)"
  using assms(3)
proof (induction ys)
  case Nil
  then show ?case by simp
next
  case (Cons y ys)
  show ?case
  proof (cases "cmp x y \<le> 0")
    case True
    then have "\<forall>z\<in>set ys. cmp x z \<le> 0"
      using Cons.prems trans by auto
    then show ?thesis using True Cons.prems by simp
  next
    case False
    then have "cmp y x \<le> 0" using total [of x y] by simp
    then show ?thesis
      using False Cons by (auto simp add: set_insert_by)
  qed
qed

lemma sorted_sort_by:
  assumes "\<And>a b. cmp a b \<le> 0 \<or> cmp b a \<le> 0"
    and "\<And>a b c. cmp a b \<le> 0 \<Longrightarrow> cmp b c \<le> 0 \<Longrightarrow> cmp a c \<le> 0"
  shows "sorted_wrt (\<lambda>a b. cmp a b \<le> 0) (sort_by cmp xs)"
proof (induction xs)
  case Nil
  show ?case by (simp add: sort_by_def)
next
  case (Cons x xs)
  have "sort_by cmp (x # xs) = insert_by cmp x (sort_by cmp xs)"
    by (simp add: sort_by_def)
  then show ?case
    using sorted_insert_by [of cmp "sort_by cmp xs" x] assms Cons.IH by simp
qed

lemma filter_insert_by:
  assumes "\<And>a b. Q a \<Longrightarrow> Q b \<Longrightarrow> cmp a b \<le> 0"
  shows "filter Q (insert_by cmp x ys) = filter Q (x # ys)"
proof (induction ys)
  case Nil
  show ?case by simp
next
  case (Cons y ys)
  show ?case
  proof (cases "cmp x y \<le> 0")
    case True
    then show ?thesis by simp
  next
    case False
    then have "\<not> (Q x \<and> Q y)" using assms by blast
    then show ?thesis using False Cons by auto
  qed
qed

lemma filter_sort_by:
  assumes "\<And>a b. Q a \<Longrightarrow> Q b \<Longrightarrow> cmp a b \<le> 0"
  shows "filter Q (sort_by cmp xs) = filter Q xs"
proof (induction xs)
  case Nil
  show ?case by (simp add: sort_by_def)
next
  case (Cons x xs)
  have "filter Q (sort_by cmp (x # xs)) = filter Q (x # sort_by cmp xs)"
    using filter_insert_by [of Q cmp x "sort_by cmp xs"] assms by (simp add: sort_by_def)
  then show ?case using Cons by simp
qed

lemma sort_comparator_order:
  "(sort_comparator f d a b \<le> 0) = in_sort_order f d a b"
  by (cases f; cases d) (auto simp add: sort_comparator_def comparison_def in_sort_order_def key_le_def)

lemma in_sort_order_total: "in_sort_order f d a b \<or> in_sort_order f d b a"
  by (cases f; cases d) (auto simp add: in_sort_order_def key_le_def)

lemma in_sort_order_trans:
  "in_sort_order f d a b \<Longrightarrow> in_sort_order f d b c \<Longrightarrow> in_sort_order f d a c"
  by (cases f; cases d) (auto simp add: in_sort_order_def key_le_def)

lemma same_sort_key_order:
  "same_sort_key f a v \<Longrightarrow> same_sort_key f b v \<Longrightarrow> in_sort_order f d a b"
  by (cases f; cases d) (auto simp add: in_sort_order_def key_le_def same_sort_key_def)

lemma passes_stage:
  "passes_search q a = (q = [] \<or> matches_query (toLowerCase q) a)"
  by (simp add: passes_search_def matches_query_def contains_ignoring_case_def)

lemma filteredAssets_result:
  "read_array (snd (filteredAssets w)) (fst (filteredAssets w))
     = sort_by (\<lambda>x y. sort_comparator (sortBy w) (sortDirection w) (objects w x) (objects w y))
         (filtered_unsorted w)"
  by (cases "activeFilter w"; cases "selectedCategory w")
    (simp_all add: filteredAssets_def filtered_unsorted_def new_array_def array_filter_def
      array_sort_def read_array_def Let_def nth_append passes_active_filter_def
      passes_category_def passes_stage)

lemma filteredAssets_frame_lemma:
  "(snd (filteredAssets w))\<lparr>arrays := arrays w\<rparr> = w
   \<and> take (length (arrays w)) (arrays (snd (filteredAssets w))) = arrays w"
  by (cases "activeFilter w"; cases "selectedCategory w")
    (simp_all add: filteredAssets_def new_array_def array_filter_def
      array_sort_def read_array_def Let_def nth_append)


lemma filteredAssets_working_set:
  "read_array (snd (filteredAssets w)) (assets w) = read_array w (assets w)"
  by (cases "activeFilter w"; cases "selectedCategory w"; cases "assets w < length (arrays w)")
    (auto simp add: filteredAssets_def new_array_def array_filter_def
      array_sort_def read_array_def Let_def nth_append sort_by_def nth_list_update nth_Cons'
      less_Suc_eq)

text \<open>
  Claim C6: the array that \<^verbatim>\<open>filteredAssets\<close> returns holds the working set after
  the filter of \<^verbatim>\<open>activeFilter\<close>, then the case-insensitive search over name, serial
  number and manufacturer when \<^verbatim>\<open>searchQuery\<close> is not empty, then the equality
  filter on the category when one is selected, then a stable sort on the field
  \<^verbatim>\<open>sortBy\<close> in the direction \<^verbatim>\<open>sortDirection\<close>: it has the elements of the
  filtered list, as often; it is in the order of the sort field and direction; and the
  elements with any one sort key come in the order they have in the filtered list.
  These three properties determine the array.
\<close>

theorem filteredAssets_pipeline:
  "mset (read_array (snd (filteredAssets w)) (fst (filteredAssets w))) = mset (filtered_unsorted w)
   \<and> sorted_wrt (\<lambda>x y. in_sort_order (sortBy w) (sortDirection w) (objects w x) (objects w y))
        (read_array (snd (filteredAssets w)) (fst (filteredAssets w)))
   \<and> (\<forall>v. filter (\<lambda>x. same_sort_key (sortBy w) (objects w x) v)
              (read_array (snd (filteredAssets w)) (fst (filteredAssets w)))
          = filter (\<lambda>x. same_sort_key (sortBy w) (objects w x) v) (filtered_unsorted w))"
proof -
  let ?cmp = "\<lambda>x y. sort_comparator (sortBy w) (sortDirection w) (objects w x) (objects w y)"
  have total: "?cmp a b \<le> 0 \<or> ?cmp b a \<le> 0" for a b
    using in_sort_order_total by (simp add: sort_comparator_order)
  have trans: "?cmp a b \<le> 0 \<Longrightarrow> ?cmp b c \<le> 0 \<Longrightarrow> ?cmp a c \<le> 0" for a b c
    using in_sort_order_trans by (simp add: sort_comparator_order)
  have same: "same_sort_key (sortBy w) (objects w a) v
      \<Longrightarrow> same_sort_key (sortBy w) (objects w b) v \<Longrightarrow> ?cmp a b \<le> 0" for a b v
    using same_sort_key_order by (simp add: sort_comparator_order)
  have "sorted_wrt (\<lambda>a b. ?cmp a b \<le> 0) (sort_by ?cmp (filtered_unsorted w))"
    using total trans by (rule sorted_sort_by)
  moreover have "filter (\<lambda>x. same_sort_key (sortBy w) (objects w x) v) (sort_by ?cmp (filtered_unsorted w))
      = filter (\<lambda>x. same_sort_key (sortBy w) (objects w x) v) (filtered_unsorted w)" for v
    using same by (rule filter_sort_by)
  ultimately show ?thesis
    by (simp add: filteredAssets_result mset_sort_by sort_comparator_order)
qed

lemma names_ordered: "name (data alpha) < name (data zebra)"
  by (simp add: alpha_def zebra_def new_equipment_input_def HospitalAsset_new_def initialize_def)

lemma sorting_world_sorted:
  "read_array (snd (filteredAssets sorting_world)) (fst (filteredAssets sorting_world)) = [1, 0]"
proof -
  have f: "filtered_unsorted sorting_world = [0, Suc 0]"
    by (simp add: sorting_world_def initial_world_def filtered_unsorted_def read_array_def
      passes_category_def passes_search_def passes_active_filter_def)
  have s: "sortBy sorting_world = SortName" "sortDirection sorting_world = Asc"
    by (simp_all add: sorting_world_def initial_world_def)
  have o: "objects sorting_world 0 = zebra" "objects sorting_world (Suc 0) = alpha"
    by (simp_all add: sorting_world_def initial_world_def)
  have c: "sort_comparator SortName Asc zebra alpha = 1"
    using names_ordered by (simp add: sort_comparator_def comparison_def)
  show ?thesis
    unfolding filteredAssets_result f s
    by (simp add: sort_by_def o c)
qed

theorem filteredAssets_pipeline_witness:
  "read_array (snd (filteredAssets sorting_world)) (fst (filteredAssets sorting_world)) = [1, 0]
   \<and> mset (read_array (snd (filteredAssets sorting_world)) (fst (filteredAssets sorting_world)))
       = mset (filtered_unsorted sorting_world)
   \<and> sorted_wrt (\<lambda>x y. in_sort_order SortName Asc (objects sorting_world x) (objects sorting_world y))
        (read_array (snd (filteredAssets sorting_world)) (fst (filteredAssets sorting_world)))"
proof -
  have s: "sortBy sorting_world = SortName" "sortDirection sorting_world = Asc"
    by (simp_all add: sorting_world_def initial_world_def)
  from filteredAssets_pipeline [of sorting_world]
  have "mset (read_array (snd (filteredAssets sorting_world)) (fst (filteredAssets sorting_world)))
       = mset (filtered_unsorted sorting_world)
   \<and> sorted_wrt (\<lambda>x y. in_sort_order SortName Asc (objects sorting_world x) (objects sorting_world y))
        (read_array (snd (filteredAssets sorting_world)) (fst (filteredAssets sorting_world)))"
    unfolding s by blast
  with sorting_world_sorted show ?thesis by blast
qed

text \<open>
  Claim C10: reading \<^verbatim>\<open>filteredAssets\<close> leaves the state of the store as it is.
  The working set is the same array with the same elements in the same order, every
  array that existed is unchanged, and so are the objects, the filter and sort settings
  and all the rest; the arrays that the view builds and sorts are new ones.
\<close>

theorem filteredAssets_reads_only:
  "assets (snd (filteredAssets w)) = assets w
   \<and> read_array (snd (filteredAssets w)) (assets (snd (filteredAssets w))) = read_array w (assets w)
   \<and> take (length (arrays w)) (arrays (snd (filteredAssets w))) = arrays w
   \<and> objects (snd (filteredAssets w)) = objects w
   \<and> searchQuery (snd (filteredAssets w)) = searchQuery w
   \<and> selectedCategory (snd (filteredAssets w)) = selectedCategory w
   \<and> sortBy (snd (filteredAssets w)) = sortBy w
   \<and> sortDirection (snd (filteredAssets w)) = sortDirection w
   \<and> activeFilter (snd (filteredAssets w)) = activeFilter w
   \<and> (snd (filteredAssets w))\<lparr>arrays := arrays w\<rparr> = w"
proof -
  have e: "(snd (filteredAssets w))\<lparr>arrays := arrays w\<rparr> = w"
    and t: "take (length (arrays w)) (arrays (snd (filteredAssets w))) = arrays w"
    using filteredAssets_frame_lemma [of w] by simp_all
  have a: "assets (snd (filteredAssets w)) = assets w"
    using arg_cong [OF e, of assets] by simp
  have o: "objects (snd (filteredAssets w)) = objects w"
    using arg_cong [OF e, of objects] by simp
  have q: "searchQuery (snd (filteredAssets w)) = searchQuery w"
    using arg_cong [OF e, of searchQuery] by simp
  have c: "selectedCategory (snd (filteredAssets w)) = selectedCategory w"
    using arg_cong [OF e, of selectedCategory] by simp
  have b: "sortBy (snd (filteredAssets w)) = sortBy w"
    using arg_cong [OF e, of sortBy] by simp
  have d: "sortDirection (snd (filteredAssets w)) = sortDirection w"
    using arg_cong [OF e, of sortDirection] by simp
  have f: "activeFilter (snd (filteredAssets w)) = activeFilter w"
    using arg_cong [OF e, of activeFilter] by simp
  have r: "read_array (snd (filteredAssets w)) (assets (snd (filteredAssets w)))
      = read_array w (assets w)"
    unfolding a by (rule filteredAssets_working_set)
  show ?thesis
    by (intro conjI) (rule a r t o q c b d f e)+
qed

subsection \<open>Statistics\<close>

lemma pow2_nonpos: "k \<le> 0 \<Longrightarrow> pow2 k = 1 / 2 ^ nat (- k)"
  by (simp add: pow2_def)

lemma round_half_even_int: "round_half_even (of_int z) = z"
  by (simp add: round_half_even_def)

lemma exponent_whole:
  assumes "0 < n" and "n < 2 ^ 53"
  shows "0 \<le> exponent (of_int n) \<and> exponent (of_int n) \<le> 52"
proof -
  have e: "exponent (of_int n) = bitlen n - 1"
    using assms(1) by (simp add: exponent_def)
  have b: "2 ^ nat (bitlen n - 1) \<le> n"
    using bitlen_bounds [OF assms(1)] by simp
  have p: "0 < bitlen n"
    using assms(1) bitlen_eq_zero_iff [of n] bitlen_nonneg [of n] by linarith
  have lt: "(2::int) ^ nat (bitlen n - 1) < 2 ^ 53"
    using b assms(2) by linarith
  have "nat (bitlen n - 1) < 53"
    by (rule power_less_imp_less_exp [OF _ lt]) simp
  then show ?thesis using e p by linarith
qed

text \<open>A whole number below \<open>2^53\<close> in size is a double.\<close>

lemma round_double_whole:
  assumes "\<bar>n\<bar> < 2 ^ 53"
  shows "round_double (of_int n) = Num (of_int n)"
proof (cases "n = 0")
  case True
  then show ?thesis by (simp add: round_double_def)
next
  case False
  let ?x = "of_int n :: rat"
  have m: "0 < \<bar>n\<bar>" using False by simp
  have ax: "\<bar>?x\<bar> = of_int \<bar>n\<bar>" by simp
  from exponent_whole [OF m assms]
  have e: "0 \<le> exponent \<bar>?x\<bar>" "exponent \<bar>?x\<bar> \<le> 52"
    unfolding ax by simp_all
  define j where "j = nat (52 - exponent \<bar>?x\<bar>)"
  have q: "pow2 (max (exponent \<bar>?x\<bar>) (- 1022) - 52) = 1 / 2 ^ j"
    using e by (simp add: pow2_nonpos j_def max_def)
  have d: "?x / (1 / 2 ^ j) = of_int (n * 2 ^ j)"
    by simp
  have r: "of_int (round_half_even (?x / (1 / 2 ^ j))) * (1 / 2 ^ j) = ?x"
    unfolding d round_half_even_int by simp
  have "\<not> (1024 \<le> exponent \<bar>?x\<bar>)" using e by simp
  then show ?thesis
    unfolding round_double_def Let_def q r using False by simp
qed

lemma isInteger_of_int: "isInteger x \<Longrightarrow> \<exists>n. x = of_int n"
  unfolding isInteger_def by blast

lemma isInteger_closed:
  assumes "isInteger a" and "isInteger b"
  shows "isInteger (a + b)" and "isInteger (a * b)"
proof -
  obtain m n where "a = of_int m" and "b = of_int n"
    using assms isInteger_of_int by blast
  then have "a + b = of_int (m + n)" and "a * b = of_int (m * n)" by simp_all
  then show "isInteger (a + b)" and "isInteger (a * b)"
    by (simp_all only: isInteger_def floor_of_int)
qed

lemma js_plus_whole:
  assumes "isInteger a" and "isInteger b" and "\<bar>a + b\<bar> < 2 ^ 53"
  shows "js_plus (Num a) (Num b) = Num (a + b)"
proof -
  obtain m n where a: "a = of_int m" and b: "b = of_int n"
    using assms(1,2) isInteger_of_int by blast
  have "\<bar>m + n\<bar> < 2 ^ 53"
  proof -
    have "(of_int \<bar>m + n\<bar> :: rat) < of_int (2 ^ 53)" using assms(3) a b by simp
    then show ?thesis by (simp only: of_int_less_iff)
  qed
  from round_double_whole [OF this] show ?thesis by (simp add: a b)
qed

lemma js_times_whole:
  assumes "isInteger a" and "isInteger b" and "\<bar>a * b\<bar> < 2 ^ 53"
  shows "js_times (Num a) (Num b) = Num (a * b)"
proof -
  obtain m n where a: "a = of_int m" and b: "b = of_int n"
    using assms(1,2) isInteger_of_int by blast
  have "\<bar>m * n\<bar> < 2 ^ 53"
  proof -
    have "(of_int \<bar>m * n\<bar> :: rat) < of_int (2 ^ 53)" using assms(3) a b by simp
    then show ?thesis by (simp only: of_int_less_iff)
  qed
  from round_double_whole [OF this] show ?thesis by (simp add: a b)
qed

text \<open>A falsy value other than undefined converts to 0, so \<^verbatim>\<open>|| 0\<close> changes no price.\<close>

lemma ToNumber_or_zero:
  "ToNumber (or_zero v) = (if v = JUndefined then Num 0 else ToNumber v)"
  by (cases v) (simp_all add: or_zero_def StringToNumber_def trim_def)

lemma add_value_price:
  "add_value w s a
     = js_plus s (js_times (Num (quantity (data (objects w a)))) (price_taken (objects w a)))"
proof -
  have "ToNumber (or_zero (getCustomField (objects w a) ''purchasePrice''))
      = price_taken (objects w a)"
    unfolding ToNumber_or_zero
    by (simp add: getCustomField_def price_taken_def split: option.splits)
  then show ?thesis by (simp add: add_value_def)
qed

lemma totalValue_js_sum:
  "totalValue w
     = js_sum (map (\<lambda>a. js_times (Num (quantity (data (objects w a)))) (price_taken (objects w a)))
         (read_array w (assets w)))"
proof -
  have "foldl (add_value w) s xs
      = foldl js_plus s
          (map (\<lambda>a. js_times (Num (quantity (data (objects w a)))) (price_taken (objects w a))) xs)"
    for s xs
    by (induction xs arbitrary: s) (simp_all add: add_value_price)
  then show ?thesis by (simp add: totalValue_def js_sum_def)
qed

lemma add_value_whole:
  assumes "whole_valued (objects w a)" and "isInteger s"
    and "\<bar>s\<bar> + \<bar>exact_value (objects w a)\<bar> < 2 ^ 53"
  shows "add_value w (Num s) a = Num (s + exact_value (objects w a))"
proof -
  obtain p where p: "price_taken (objects w a) = Num p" and ip: "isInteger p"
    using assms(1) by (cases "price_taken (objects w a)") (simp_all add: whole_valued_def)
  have iq: "isInteger (quantity (data (objects w a)))"
    using assms(1) by (simp add: whole_valued_def)
  have v: "exact_value (objects w a) = quantity (data (objects w a)) * p"
    by (simp add: exact_value_def p)
  have b1: "\<bar>quantity (data (objects w a)) * p\<bar> < 2 ^ 53"
    using assms(3) v by linarith
  have b2: "\<bar>s + quantity (data (objects w a)) * p\<bar> < 2 ^ 53"
    using assms(3) v by linarith
  show ?thesis
    unfolding add_value_price p v
    by (simp only: js_times_whole [OF iq ip b1]
        js_plus_whole [OF assms(2) isInteger_closed(2) [OF iq ip] b2])
qed

lemma foldl_add_value_whole:
  "\<forall>a\<in>set xs. whole_valued (objects w a) \<Longrightarrow> isInteger s \<Longrightarrow>
   \<bar>s\<bar> + (\<Sum>a\<leftarrow>xs. \<bar>exact_value (objects w a)\<bar>) < 2 ^ 53 \<Longrightarrow>
   foldl (add_value w) (Num s) xs = Num (s + (\<Sum>a\<leftarrow>xs. exact_value (objects w a)))"
proof (induction xs arbitrary: s)
  case Nil
  show ?case by simp
next
  case (Cons x xs)
  have nn: "0 \<le> (\<Sum>a\<leftarrow>xs. \<bar>exact_value (objects w a)\<bar>)"
    by (rule sum_list_nonneg) auto
  have wx: "whole_valued (objects w x)" using Cons.prems(1) by simp
  have b: "\<bar>s\<bar> + \<bar>exact_value (objects w x)\<bar> < 2 ^ 53"
    using Cons.prems(3) nn by simp
  have step: "add_value w (Num s) x = Num (s + exact_value (objects w x))"
    using wx Cons.prems(2) b by (rule add_value_whole)
  have iv: "isInteger (exact_value (objects w x))"
  proof -
    obtain p where "price_taken (objects w x) = Num p" and "isInteger p"
      using wx by (cases "price_taken (objects w x)") (simp_all add: whole_valued_def)
    moreover have "isInteger (quantity (data (objects w x)))"
      using wx by (simp add: whole_valued_def)
    ultimately show ?thesis
      by (simp add: exact_value_def isInteger_closed(2))
  qed
  have is': "isInteger (s + exact_value (objects w x))"
    using Cons.prems(2) iv by (rule isInteger_closed(1))
  have b': "\<bar>s + exact_value (objects w x)\<bar> + (\<Sum>a\<leftarrow>xs. \<bar>exact_value (objects w a)\<bar>) < 2 ^ 53"
    using Cons.prems(3) by simp
  have "foldl (add_value w) (Num (s + exact_value (objects w x))) xs
      = Num (s + exact_value (objects w x) + (\<Sum>a\<leftarrow>xs. exact_value (objects w a)))"
    using Cons.prems(1) is' b' by (intro Cons.IH) simp_all
  then show ?case by (simp add: step add.assoc)
qed

text \<open>
  Claim C7: for every working set, \<^verbatim>\<open>statistics.totalValue\<close> is the sum over the
  working set of the quantity times the custom field \<^verbatim>\<open>purchasePrice\<close>, taken as 0
  when absent, where the products and the sum are those of the runtime: doubles, added
  from the left. When the quantities and prices are whole numbers and the absolute
  values of the exact products add up to less than \<open>2^53\<close>, nothing is rounded and the
  total is the exact sum; for the two assets of the tests it is 4500. And
  \<^verbatim>\<open>statistics.criticalCount\<close> is the number of assets of the working set for which
  \<^verbatim>\<open>isCritical()\<close> holds.
\<close>

theorem statistics_totals:
  "totalValueStat (statistics w)
     = js_sum (map (\<lambda>a. js_times (Num (quantity (data (objects w a)))) (price_taken (objects w a)))
         (read_array w (assets w)))
   \<and> ((\<forall>a\<in>set (read_array w (assets w)). whole_valued (objects w a))
        \<and> (\<Sum>a\<leftarrow>read_array w (assets w). \<bar>exact_value (objects w a)\<bar>) < 2 ^ 53
      \<longrightarrow> totalValueStat (statistics w)
           = Num (\<Sum>a\<leftarrow>read_array w (assets w). exact_value (objects w a)))
   \<and> criticalCount (statistics w)
       = length (filter (\<lambda>a. isCritical (objects w a)) (read_array w (assets w)))"
proof -
  have z: "isInteger 0" by (simp add: isInteger_def)
  show ?thesis
    using foldl_add_value_whole [of "read_array w (assets w)" w 0, OF _ z] totalValue_js_sum [of w]
    by (simp add: statistics_def criticalAssets_def) (simp add: totalValue_def)
qed

theorem statistics_totals_witness:
  "read_array statistics_world (assets statistics_world) = [0, 1]
   \<and> whole_valued (objects statistics_world 0)
   \<and> whole_valued (objects statistics_world 1)
   \<and> \<bar>exact_value (objects statistics_world 0)\<bar> + \<bar>exact_value (objects statistics_world 1)\<bar>
       < 2 ^ 53
   \<and> totalValueStat (statistics statistics_world) = Num 4500
   \<and> criticalCount (statistics statistics_world) = 1"
proof -
  have r: "read_array statistics_world (assets statistics_world) = [0, Suc 0]"
    by (simp add: statistics_world_def initial_world_def read_array_def)
  have o: "objects statistics_world 0 = asset1" "objects statistics_world (Suc 0) = asset2"
    by (simp_all add: statistics_world_def initial_world_def)
  have t: "price_taken asset1 = Num 1000" "price_taken asset2 = Num 500"
    by (simp_all add: asset1_def asset2_def HospitalAsset_new_def initialize_def price_taken_def)
  have p: "whole_valued asset1" "whole_valued asset2"
    by (simp_all add: whole_valued_def t isInteger_def)
      (simp_all add: asset1_def asset2_def HospitalAsset_new_def initialize_def)
  have v: "exact_value asset1 = 2000" "exact_value asset2 = 2500"
    by (simp_all add: exact_value_def t)
      (simp_all add: asset1_def asset2_def HospitalAsset_new_def initialize_def)
  have c: "isCritical asset1" "\<not> isCritical asset2"
    by (simp_all add: asset1_def asset2_def HospitalAsset_new_def initialize_def isCritical_def)
  have h: "(\<forall>a\<in>set (read_array statistics_world (assets statistics_world)).
        whole_valued (objects statistics_world a))
      \<and> (\<Sum>a\<leftarrow>read_array statistics_world (assets statistics_world).
           \<bar>exact_value (objects statistics_world a)\<bar>) < 2 ^ 53"
    unfolding r by (simp add: o p v)
  have s: "(\<Sum>a\<leftarrow>[0, Suc 0]. exact_value (objects statistics_world a)) = 4500"
    by (simp add: o v)
  have n: "length (filter (\<lambda>a. isCritical (objects statistics_world a)) [0, Suc 0]) = 1"
    by (simp add: o c)
  from statistics_totals [of statistics_world] h
  have "totalValueStat (statistics statistics_world)
        = Num (\<Sum>a\<leftarrow>read_array statistics_world (assets statistics_world).
                 exact_value (objects statistics_world a))
      \<and> criticalCount (statistics statistics_world)
        = length (filter (\<lambda>a. isCritical (objects statistics_world a))
            (read_array statistics_world (assets statistics_world)))"
    by blast
  then have "totalValueStat (statistics statistics_world) = Num 4500
      \<and> criticalCount (statistics statistics_world) = 1"
    unfolding r s n .
  with r o p v show ?thesis by simp
qed

text \<open>
  Two totals that are not sums of whole numbers: a price given as the text
  \<^verbatim>\<open>'1000'\<close> is converted, so two units are worth 2000; and five units at
  \<^verbatim>\<open>1234.56\<close> are worth the double \<^verbatim>\<open>6172.799999999999\<close>, which is
  \<open>1696766343983923 / 2^38\<close>, and not the exact product.
\<close>

lemma text_priced_total: "totalValue text_priced_world = Num 2000"
  by code_simp

lemma fraction_priced_total:
  "totalValue fraction_priced_world = Num (1696766343983923 / 274877906944)
   \<and> 5 * (2714826150374277 / 2199023255552) \<noteq> (1696766343983923 / 274877906944 :: rat)"
  by code_simp

subsection \<open>Construction and serialization\<close>

text \<open>
  Claim C9: a price of 0 in the input of the constructor is stored neither in the typed
  field nor in the custom fields, which are then just the entries of the
  \<^verbatim>\<open>customFields\<close> of the input; a price other than 0 is stored in both; the typed
  field and the custom fields differ from the plain entries only for such a price; and
  an empty location or condition is dropped.
\<close>

theorem constructor_keeps_truthy_only:
  "(p_purchasePrice inp = Some 0
      \<longrightarrow> purchasePrice (data (HospitalAsset_new g inp cfg)) = None
          \<and> customFields (HospitalAsset_new g inp cfg)
              = (case p_customFields inp of None \<Rightarrow> [] | Some obj \<Rightarrow> obj))
   \<and> (\<forall>p. p_purchasePrice inp = Some p \<and> p \<noteq> 0
      \<longrightarrow> purchasePrice (data (HospitalAsset_new g inp cfg)) = Some p
          \<and> getCustomField (HospitalAsset_new g inp cfg) ''purchasePrice'' = JNum p)
   \<and> (purchasePrice (data (HospitalAsset_new g inp cfg)) \<noteq> None
       \<or> customFields (HospitalAsset_new g inp cfg)
           \<noteq> (case p_customFields inp of None \<Rightarrow> [] | Some obj \<Rightarrow> obj)
      \<longrightarrow> (\<exists>p. p_purchasePrice inp = Some p \<and> p \<noteq> 0))
   \<and> (p_location inp = Some [] \<longrightarrow> location (data (HospitalAsset_new g inp cfg)) = None)
   \<and> (p_condition inp = Some [] \<longrightarrow> condition (data (HospitalAsset_new g inp cfg)) = None)"
  by (cases "p_purchasePrice inp")
    (auto simp add: HospitalAsset_new_def Let_def getCustomField_def map_of_map_set)

theorem constructor_keeps_truthy_only_witness:
  "p_purchasePrice falsy_input = Some 0
   \<and> p_location falsy_input = Some [] \<and> p_condition falsy_input = Some []
   \<and> purchasePrice (data (HospitalAsset_new ''generated'' falsy_input getDefaultConfig)) = None
   \<and> customFields (HospitalAsset_new ''generated'' falsy_input getDefaultConfig) = []
   \<and> location (data (HospitalAsset_new ''generated'' falsy_input getDefaultConfig)) = None
   \<and> condition (data (HospitalAsset_new ''generated'' falsy_input getDefaultConfig)) = None"
proof -
  have h: "p_purchasePrice falsy_input = Some 0" "p_location falsy_input = Some []"
    "p_condition falsy_input = Some []" "p_customFields falsy_input = None"
    by (simp_all add: falsy_input_def new_equipment_input_def)
  show ?thesis
    using constructor_keeps_truthy_only [of falsy_input "''generated''" getDefaultConfig]
    unfolding h by simp
qed

lemma toISOString_date_object:
  "date_object_or_absent d \<Longrightarrow> toISOString_opt d = Inr (map_option (\<lambda>v. IsoText (instant v)) d)"
  by (cases d rule: date_object_or_absent.cases) simp_all

lemma map_set_same: "map_of l k = Some v \<Longrightarrow> map_set k v l = l"
  by (induction l) (auto split: if_splits)

lemma map_of_filter_keys: "P k \<Longrightarrow> map_of (filter (\<lambda>kv. P (fst kv)) m) k = map_of m k"
  by (induction m) auto

lemma map_of_fromEntries:
  assumes "\<not> is_array_index k"
  shows "map_of (fromEntries m) k = map_of m k"
proof -
  have "k \<notin> fst ` set (sort_key (\<lambda>kv. decimal_value 0 (fst kv)) (filter (\<lambda>kv. is_array_index (fst kv)) m))"
    using assms by auto
  then have "map_of (sort_key (\<lambda>kv. decimal_value 0 (fst kv)) (filter (\<lambda>kv. is_array_index (fst kv)) m)) k = None"
    by (simp add: map_of_eq_None_iff)
  then show ?thesis
    using map_of_filter_keys [of "\<lambda>x. \<not> is_array_index x" k m] assms
    by (simp add: fromEntries_def map_add_def)
qed

lemma purchasePrice_not_index: "\<not> is_array_index ''purchasePrice''"
  by (rule not_array_index) (simp_all add: is_digit_def code_unit_def)

lemma truthy_string_same: "l \<noteq> Some [] \<Longrightarrow> truthy_string l = l"
  by (cases l) simp_all

lemma synced_customFields:
  assumes "price_in_sync pr cf"
  shows "truthy_number pr = pr
    \<and> set (case pr of None \<Rightarrow> fromEntries cf
            | Some p \<Rightarrow> map_set ''purchasePrice'' (JNum p) (fromEntries cf)) = set cf"
proof (cases pr)
  case None
  then show ?thesis by (simp add: set_fromEntries)
next
  case (Some p)
  then have "map_of (fromEntries cf) ''purchasePrice'' = Some (JNum p)"
    using assms by (simp add: map_of_fromEntries purchasePrice_not_index)
  then have "map_set ''purchasePrice'' (JNum p) (fromEntries cf) = fromEntries cf"
    by (rule map_set_same)
  then show ?thesis using Some assms by (simp add: set_fromEntries)
qed

text \<open>
  Claim C8 says that serializing any asset and constructing an asset from the record
  gives equivalent field values. The asset built with a price of 50000 whose custom
  field \<^verbatim>\<open>purchasePrice\<close> was set to 42000 afterwards is a counterexample: the
  constructor writes the typed price over the custom field, so the reconstructed asset
  has 50000 there.
\<close>

theorem reconstruct_counterexample:
  "reconstruct ''generated'' getDefaultConfig repriced = Inr repriced_again
   \<and> getCustomField repriced ''purchasePrice'' = JNum 42000
   \<and> getCustomField repriced_again ''purchasePrice'' = JNum 50000
   \<and> \<not> equivalent_fields repriced repriced_again"
proof -
  have c: "customFields repriced = [(''purchasePrice'', JNum 42000)]"
    by (simp add: repriced_def new_equipment_input_def HospitalAsset_new_def initialize_def setCustomField_def)
  have f: "fromEntries [(''purchasePrice'', JNum 42000)] = [(''purchasePrice'', JNum 42000)]"
    by (simp add: fromEntries_def purchasePrice_not_index)
  have s: "HospitalAsset_serialize repriced
      = Inr (new_equipment_input\<lparr>p_customFields := Some [(''purchasePrice'', JNum 42000)],
          p_criticalLevel := Some ''routine'', p_reorderPoint := Some 10,
          p_purchasePrice := Some 50000\<rparr>)"
    by (simp add: HospitalAsset_serialize_def Asset_serialize_def getAllCustomFields_def
        repriced_def new_equipment_input_def HospitalAsset_new_def initialize_def setCustomField_def f)
  have a: "customFields repriced_again = [(''purchasePrice'', JNum 50000)]"
    by (simp add: repriced_again_def new_equipment_input_def HospitalAsset_new_def initialize_def)
  show ?thesis
    by (simp add: reconstruct_def s repriced_again_def getCustomField_def c a [unfolded repriced_again_def]
        equivalent_fields_def)
qed

text \<open>
  Claim C8, amended: for every asset whose id and critical level are not empty, whose
  four date fields are absent or hold \<^verbatim>\<open>Date\<close> objects, whose location and condition
  are absent or not empty, and whose typed price is absent, or is not zero and equal to
  the custom field \<^verbatim>\<open>purchasePrice\<close>, serializing succeeds and the asset constructed
  from the record has equivalent field values: equal fields that are not dates, the
  same custom fields, and date fields that are ISO texts of the same instants.
\<close>

theorem reconstruct_equivalent:
  assumes "asset_id (data m) \<noteq> []" and "criticalLevel (data m) \<noteq> []"
    and "date_object_or_absent (lastMaintenance (data m))"
    and "date_object_or_absent (expiryDate (data m))"
    and "date_object_or_absent (warrantyExpiry (data m))"
    and "date_object_or_absent (lastCalibration (data m))"
    and "location (data m) \<noteq> Some []" and "condition (data m) \<noteq> Some []"
    and "price_in_sync (purchasePrice (data m)) (customFields m)"
  shows "\<exists>m'. reconstruct generated config m = Inr m' \<and> equivalent_fields m m'"
proof -
  have s: "HospitalAsset_serialize m =
    Inr \<lparr> p_id = Some (asset_id (data m)), p_name = Some (name (data m)),
          p_manufacturer = Some (manufacturer (data m)),
          p_category = Some (category (data m)),
          p_quantity = Some (quantity (data m)),
          p_serialNumber = Some (serialNumber (data m)),
          p_criticalLevel = Some (criticalLevel (data m)),
          p_lastMaintenance = map_option (\<lambda>v. IsoText (instant v)) (lastMaintenance (data m)),
          p_expiryDate = map_option (\<lambda>v. IsoText (instant v)) (expiryDate (data m)),
          p_reorderPoint = Some (reorderPoint (data m)),
          p_customFields = Some (fromEntries (customFields m)),
          p_location = location (data m),
          p_condition = condition (data m),
          p_purchasePrice = purchasePrice (data m),
          p_warrantyExpiry = map_option (\<lambda>v. IsoText (instant v)) (warrantyExpiry (data m)),
          p_lastCalibration = map_option (\<lambda>v. IsoText (instant v)) (lastCalibration (data m)) \<rparr>"
    using assms(3-6)
    by (simp add: HospitalAsset_serialize_def Asset_serialize_def toISOString_date_object
        getAllCustomFields_def)
  have i: "map_option instant (map_option (\<lambda>v. IsoText (instant v)) d) = map_option instant d" for d
    by (cases d) simp_all
  show ?thesis
    using assms(1,2,7,8) synced_customFields [OF assms(9)]
    by (simp add: reconstruct_def s HospitalAsset_new_def initialize_def Let_def
        equivalent_fields_def truthy_string_same i)
qed

theorem reconstruct_equivalent_witness:
  "asset_id (data icu_ventilator) \<noteq> [] \<and> criticalLevel (data icu_ventilator) \<noteq> []
   \<and> date_object_or_absent (lastMaintenance (data icu_ventilator))
   \<and> date_object_or_absent (expiryDate (data icu_ventilator))
   \<and> date_object_or_absent (warrantyExpiry (data icu_ventilator))
   \<and> date_object_or_absent (lastCalibration (data icu_ventilator))
   \<and> location (data icu_ventilator) \<noteq> Some [] \<and> condition (data icu_ventilator) \<noteq> Some []
   \<and> price_in_sync (purchasePrice (data icu_ventilator)) (customFields icu_ventilator)
   \<and> (\<exists>m'. reconstruct ''another'' getDefaultConfig icu_ventilator = Inr m'
            \<and> equivalent_fields icu_ventilator m')"
proof -
  have h: "asset_id (data icu_ventilator) \<noteq> []" "criticalLevel (data icu_ventilator) \<noteq> []"
    "date_object_or_absent (lastMaintenance (data icu_ventilator))"
    "date_object_or_absent (expiryDate (data icu_ventilator))"
    "date_object_or_absent (warrantyExpiry (data icu_ventilator))"
    "date_object_or_absent (lastCalibration (data icu_ventilator))"
    "location (data icu_ventilator) \<noteq> Some []" "condition (data icu_ventilator) \<noteq> Some []"
    "price_in_sync (purchasePrice (data icu_ventilator)) (customFields icu_ventilator)"
    by (simp_all add: icu_ventilator_def HospitalAsset_new_def initialize_def)
  from reconstruct_equivalent [OF h, of "''another''" getDefaultConfig] h
  show ?thesis by blast
qed

end
